theory Spec2Isabelle
  imports Main "HOL-Library.Multiset"
begin

section \<open>Errors\<close>

text \<open>
  The error codes of \<^verbatim>\<open>internal/errors\<close> that the modelled functions use. An error
  built without a code has the code \<open>NoCode\<close>. \<open>errors.E(op, err)\<close> keeps the code of
  the wrapped error, so wrapping with an operation name is the identity here. A Go panic
  (index out of range, nil dereference) is the separate constructor \<open>Panic\<close>.
\<close>

datatype code =
    NoCode
  | CodeUnauthorized
  | CodeNotFound
  | CodeAlreadyExists
  | CodeBadRequest
  | CodeConnectionFailed
  | CodeUpgradeInProgress

datatype err = E code string | Panic string

fun ErrorCode :: "err \<Rightarrow> code" where
  "ErrorCode (E c m) = c"
| "ErrorCode (Panic m) = NoCode"

section \<open>Data model (package dbmodel)\<close>

text \<open>
  Each struct is a record with the fields the modelled functions read or write. A
  primary key of 0 is Go's zero value: the row has not been stored.
\<close>

record user =
  u_ID :: nat
  Username :: string
  DisplayName :: string
  ControllerAccess :: string

text \<open>\<open>UserModelAccess\<close>: the access level of a user on a model.\<close>

record user_model_access =
  uma_ID :: nat
  UserID :: nat
  User :: user
  Access :: string

record machine =
  MachineID :: string
  InstanceID :: string

text \<open>
  \<open>CloudRegionControllerPriority\<close> joins a controller and a cloud region. The type
  parameter is the \<open>Controller\<close> association: a \<open>controller\<close> where it is loaded
  (the entries of a region), \<open>unit\<close> where it is the owning controller itself.
\<close>

record 'c cloud_region_controller_priority =
  CloudRegionID :: nat
  Controller :: 'c
  Priority :: nat

record controller =
  ctl_ID :: nat
  ctl_Name :: string
  ctl_UUID :: string
  AdminUser :: string
  AdminPassword :: string
  ctl_CloudName :: string
  ctl_CloudRegion :: string
  CloudRegions :: "unit cloud_region_controller_priority list"

record cloud_region =
  reg_ID :: nat
  reg_CloudName :: string
  reg_Name :: string
  Controllers :: "controller cloud_region_controller_priority list"

record user_cloud_access =
  uca_Username :: string
  uca_User :: user
  uca_CloudName :: string
  uca_Access :: string

record cloud =
  cloud_Name :: string
  cloud_Type :: string
  Regions :: "cloud_region list"
  cloud_Users :: "user_cloud_access list"

text \<open>
  Modelled from the spec: the declaration of \<open>dbmodel.CloudCredential\<close> is not among the
  sources. The fields are the ones \<^verbatim>\<open>model.go\<close> uses, and the revoked flag that
  section 3 of the specification gives a credential. \<open>Valid\<close> is a \<open>sql.NullBool\<close>:
  \<open>None\<close> when its validity is unknown.
\<close>

record cloud_credential =
  cred_ID :: nat
  cred_Name :: string
  cred_CloudName :: string
  OwnerID :: string
  AuthType :: string
  Valid :: "bool option"
  Revoked :: bool
  AttributesInVault :: bool
  Attributes :: "(string \<times> string) list"

text \<open>\<open>UUID\<close> is a \<open>sql.NullString\<close>: \<open>None\<close> when not valid.\<close>

record model =
  m_ID :: nat
  m_Name :: string
  UUID :: "string option"
  Owner :: user
  ControllerID :: nat
  m_Controller :: controller
  m_CloudRegionID :: nat
  CloudCredentialID :: nat
  Life :: string
  Machines :: "machine list"
  Users :: "user_model_access list"

section \<open>Wire types (package jujuparams)\<close>

record model_user_info =
  UserName :: string
  mui_DisplayName :: string
  mui_Access :: string

record model_machine_info =
  mmi_Id :: string
  mmi_InstanceId :: string

record model_info =
  mi_Name :: string
  mi_UUID :: string
  mi_ControllerUUID :: string
  mi_OwnerTag :: string
  mi_Life :: string
  mi_Users :: "model_user_info list"
  mi_Machines :: "model_machine_info list"

definition zero_model_user_info :: model_user_info where
  "zero_model_user_info = \<lparr>UserName = [], mui_DisplayName = [], mui_Access = []\<rparr>"

definition WriteModelUserInfo :: "user_model_access \<Rightarrow> model_user_info" where
  "WriteModelUserInfo a =
     \<lparr>UserName = Username (User a), mui_DisplayName = DisplayName (User a),
      mui_Access = Access a\<rparr>"

definition WriteModelMachineInfo :: "machine \<Rightarrow> model_machine_info" where
  "WriteModelMachineInfo m = \<lparr>mmi_Id = MachineID m, mmi_InstanceId = InstanceID m\<rparr>"

text \<open>
  \<open>Model.ToJujuModelInfo\<close> (in the source as \<open>Model.WriteModelInfo\<close>): the admin-level
  projection of a model row; the caller filters it.
\<close>

definition ToJujuModelInfo :: "model \<Rightarrow> model_info" where
  "ToJujuModelInfo m =
     \<lparr>mi_Name = m_Name m,
      mi_UUID = (case UUID m of None \<Rightarrow> [] | Some s \<Rightarrow> s),
      mi_ControllerUUID = ctl_UUID (m_Controller m),
      mi_OwnerTag = ''user-'' @ Username (Owner m),
      mi_Life = Life m,
      mi_Users = map WriteModelUserInfo (Users m),
      mi_Machines = map WriteModelMachineInfo (Machines m)\<rparr>"

section \<open>The catalog of models\<close>

text \<open>
  Modelled from the spec: the catalog store (package \<open>internal/db\<close>, not among the
  sources). Section 4.1: reads are pure queries, a missing row is \<open>NotFound\<close>, a
  uniqueness violation is \<open>AlreadyExists\<close>. The model table is a list of rows; each row
  carries its per-user access entries.
\<close>

record catalog =
  users :: "user list"
  clouds :: "cloud list"
  credentials :: "cloud_credential list"
  controllers :: "controller list"
  models :: "model list"

definition GetModel :: "catalog \<Rightarrow> string \<Rightarrow> err + model" where
  "GetModel db uuid =
     (case filter (\<lambda>m. UUID m = Some uuid) (models db) of
        [] \<Rightarrow> Inl (E CodeNotFound ''model not found'')
      | m # _ \<Rightarrow> Inr m)"

definition GetUser :: "catalog \<Rightarrow> string \<Rightarrow> err + user" where
  "GetUser db name =
     (case filter (\<lambda>u. Username u = name) (users db) of
        [] \<Rightarrow> Inl (E CodeNotFound ''user not found'')
      | u # _ \<Rightarrow> Inr u)"

text \<open>
  Modelled from the spec: \<open>Model.UserAccess\<close> (not among the sources) is the access
  level stored for the user on the model, the empty string when there is none.
\<close>

definition UserAccess :: "model \<Rightarrow> user \<Rightarrow> string" where
  "UserAccess m u =
     (case filter (\<lambda>a. Username (User a) = Username u) (Users m) of
        [] \<Rightarrow> []
      | a # _ \<Rightarrow> Access a)"

section \<open>JIMM.ModelInfo\<close>

text \<open>
  The loop over \<open>mi.Users\<close> has no \<open>break\<close>: the last entry with the caller's name wins,
  and the zero value stays when there is none.
\<close>

definition findModelUser :: "string \<Rightarrow> model_user_info list \<Rightarrow> model_user_info" where
  "findModelUser name us =
     fold (\<lambda>user modelUser. if UserName user = name then user else modelUser)
       us zero_model_user_info"

definition ModelInfo :: "catalog \<Rightarrow> user \<Rightarrow> string \<Rightarrow> err + model_info" where
  "ModelInfo db u mt =
     (case GetModel db mt of
        Inl e \<Rightarrow> Inl e
      | Inr m \<Rightarrow>
          let mi = ToJujuModelInfo m;
              modelUser = findModelUser (Username u) (mi_Users mi)
          in if ControllerAccess u = ''superuser'' \<or> mui_Access modelUser = ''admin''
             then Inr mi
             else if mui_Access modelUser = []
             then Inl (E CodeUnauthorized [])
             else let mi1 = mi\<lparr>mi_Users := [modelUser]\<rparr>
                  in if mui_Access modelUser \<noteq> ''write''
                     then Inr (mi1\<lparr>mi_Machines := []\<rparr>)
                     else Inr mi1)"

section \<open>The process state and the outside world\<close>

text \<open>
  The effects of a request are made explicit: every call that writes to a backing
  controller, to the catalog, to the secret store or to the authorization store is
  appended to \<open>log\<close> at the
  moment it is made, so that the order of effects can be stated.
\<close>

datatype event =
    ControllerCall string
  | CatalogWrite string
  | SecretStoreWrite string
  | TupleWrite string

text \<open>
  The \<open>JIMM\<close> struct. \<open>CredentialStore\<close> is \<open>None\<close> when no secret store is
  configured; otherwise it holds, per controller name, the admin user and password.
  \<open>VaultClient\<close> is the secret store as \<^verbatim>\<open>model.go\<close> reads it: for the path of a
  credential, an error, no secret, or the stored attributes.
\<close>

record jimm =
  Database :: catalog
  CredentialStore :: "(string \<times> string \<times> string) list option"
  VaultClient :: "(string \<Rightarrow> err + (string \<times> string) list option) option"
  log :: "event list"

definition record_event :: "event \<Rightarrow> jimm \<Rightarrow> jimm" where
  "record_event e j = j\<lparr>log := log j @ [e]\<rparr>"

record model_create_args =
  mca_Name :: string
  mca_OwnerTag :: string
  mca_CloudTag :: string
  mca_CloudRegion :: string
  mca_CloudCredentialTag :: string

text \<open>
  The backing controller is an external collaborator: what it answers is an input. Each
  field gives the outcome of one call of the \<open>API\<close> interface (or of \<open>dial\<close>) as a
  function of the call's arguments; \<open>None\<close> is a nil error.
\<close>

record controller_api =
  dial :: "controller \<Rightarrow> err option"
  api_GrantModelAccess :: "string \<Rightarrow> string \<Rightarrow> string \<Rightarrow> err option"
  api_RevokeModelAccess :: "string \<Rightarrow> string \<Rightarrow> string \<Rightarrow> err option"
  api_UpdateCredential :: "cloud_credential \<Rightarrow> err option"
  api_CreateModel :: "model_create_args \<Rightarrow> err + model_info"
  api_GrantJIMMModelAdmin :: "string \<Rightarrow> err option"

section \<open>JIMM.GrantModelAccess and JIMM.RevokeModelAccess\<close>

definition zero_user :: user where
  "zero_user = \<lparr>u_ID = 0, Username = [], DisplayName = [], ControllerAccess = []\<rparr>"

definition zero_user_model_access :: user_model_access where
  "zero_user_model_access = \<lparr>uma_ID = 0, UserID = 0, User = zero_user, Access = []\<rparr>"

text \<open>
  The loop over \<open>m.Users\<close> that looks for the target user's entry stops at the first
  match; the zero value stays when there is none.
\<close>

definition findAccess :: "nat \<Rightarrow> user_model_access list \<Rightarrow> user_model_access" where
  "findAccess uid us =
     (case filter (\<lambda>a. UserID a = uid) us of
        [] \<Rightarrow> zero_user_model_access
      | a # _ \<Rightarrow> a)"

definition upsertAccess :: "user_model_access \<Rightarrow> user_model_access list \<Rightarrow> user_model_access list" where
  "upsertAccess a us =
     (if UserID a \<in> UserID ` set us
      then map (\<lambda>b. if UserID b = UserID a then a else b) us
      else us @ [a])"

text \<open>
  Modelled from the spec: \<open>Database.UpdateUserModelAccess\<close> (package \<open>internal/db\<close>,
  not among the sources) saves the access entry of a user on a model: the entry of that
  user is replaced, or created when the user has none. The foreign key \<open>UserID\<close> is
  filled from the \<open>User\<close> association. The model row is found by its primary key.
\<close>

definition UpdateUserModelAccess :: "catalog \<Rightarrow> model \<Rightarrow> user_model_access \<Rightarrow> err + catalog" where
  "UpdateUserModelAccess db m uma =
     (if m_ID m \<in> m_ID ` set (models db)
      then Inr (db\<lparr>models :=
             map (\<lambda>r. if m_ID r = m_ID m
                      then r\<lparr>Users := upsertAccess (uma\<lparr>UserID := u_ID (User uma)\<rparr>) (Users r)\<rparr>
                      else r)
               (models db)\<rparr>)
      else Inl (E CodeNotFound ''model not found''))"

definition GrantModelAccess ::
  "controller_api \<Rightarrow> jimm \<Rightarrow> user \<Rightarrow> string \<Rightarrow> string \<Rightarrow> string \<Rightarrow> err option \<times> jimm" where
  "GrantModelAccess api j u mt ut access =
     (case GetModel (Database j) mt of
        Inl e \<Rightarrow> (Some e, j)
      | Inr m \<Rightarrow>
          if ControllerAccess u \<noteq> ''superuser'' \<and> UserAccess m u \<noteq> ''admin''
          then (Some (E CodeUnauthorized []), j)
          else
            (case GetUser (Database j) ut of
               Inl e \<Rightarrow> (Some e, j)
             | Inr targetUser \<Rightarrow>
                 (case dial api (m_Controller m) of
                    Some e \<Rightarrow> (Some e, j)
                  | None \<Rightarrow>
                      let j1 = record_event (ControllerCall ''GrantModelAccess'') j
                      in (case api_GrantModelAccess api mt ut access of
                            Some e \<Rightarrow> (Some e, j1)
                          | None \<Rightarrow>
                              let uma = (findAccess (u_ID targetUser) (Users m))
                                          \<lparr>User := targetUser, Access := access\<rparr>
                              in (case UpdateUserModelAccess (Database j1) m uma of
                                    Inl e \<Rightarrow>
                                      (Some (E (ErrorCode e)
                                         ''cannot update database after updating controller''), j1)
                                  | Inr db' \<Rightarrow>
                                      (None, record_event (CatalogWrite ''UpdateUserModelAccess'')
                                               (j1\<lparr>Database := db'\<rparr>)))))))"

text \<open>The access level that \<open>RevokeModelAccess\<close> stores: the \<open>switch access\<close>.\<close>

definition revokedAccess :: "string \<Rightarrow> string" where
  "revokedAccess access =
     (if access = ''admin'' then ''write''
      else if access = ''write'' then ''read''
      else [])"

definition RevokeModelAccess ::
  "controller_api \<Rightarrow> jimm \<Rightarrow> user \<Rightarrow> string \<Rightarrow> string \<Rightarrow> string \<Rightarrow> err option \<times> jimm" where
  "RevokeModelAccess api j u mt ut access =
     (case GetModel (Database j) mt of
        Inl e \<Rightarrow> (Some e, j)
      | Inr m \<Rightarrow>
          if ControllerAccess u \<noteq> ''superuser'' \<and> UserAccess m u \<noteq> ''admin''
          then (Some (E CodeUnauthorized []), j)
          else
            (case GetUser (Database j) ut of
               Inl e \<Rightarrow> (Some e, j)
             | Inr targetUser \<Rightarrow>
                 (case dial api (m_Controller m) of
                    Some e \<Rightarrow> (Some e, j)
                  | None \<Rightarrow>
                      let j1 = record_event (ControllerCall ''RevokeModelAccess'') j
                      in (case api_RevokeModelAccess api mt ut access of
                            Some e \<Rightarrow> (Some e, j1)
                          | None \<Rightarrow>
                              let uma = (findAccess (u_ID targetUser) (Users m))
                                          \<lparr>User := targetUser, Access := revokedAccess access\<rparr>
                              in (case UpdateUserModelAccess (Database j1) m uma of
                                    Inl e \<Rightarrow>
                                      (Some (E (ErrorCode e)
                                         ''cannot update database after updating controller''), j1)
                                  | Inr db' \<Rightarrow>
                                      (None, record_event (CatalogWrite ''UpdateUserModelAccess'')
                                               (j1\<lparr>Database := db'\<rparr>)))))))"

text \<open>
  Observations used to state properties: the access level the catalog holds for a user
  (by primary key) on the model with a given UUID, and whether the first occurrence of
  one event in a log is followed by another event.
\<close>

definition storedAccess :: "catalog \<Rightarrow> string \<Rightarrow> nat \<Rightarrow> string" where
  "storedAccess db mt uid =
     (case GetModel db mt of
        Inl e \<Rightarrow> []
      | Inr m \<Rightarrow> Access (findAccess uid (Users m)))"

fun occurs_before :: "'a \<Rightarrow> 'a \<Rightarrow> 'a list \<Rightarrow> bool" where
  "occurs_before a b [] = False"
| "occurs_before a b (x # xs) = (if x = a then b \<in> set xs else occurs_before a b xs)"

section \<open>Catalog queries used by the placement engine\<close>

text \<open>
  Modelled from the spec: \<open>Database.GetCloud\<close>, \<open>GetCloudCredential\<close> and
  \<open>GetUserCloudCredentials\<close> (package \<open>internal/db\<close>, not among the sources) are pure
  queries. \<open>GetCloud\<close> loads the regions of the cloud and, for each region, its
  \<open>(region, controller, priority)\<close> entries with the controller; the entries are the
  \<open>CloudRegions\<close> of the stored controllers.
\<close>

definition loadRegionControllers :: "catalog \<Rightarrow> cloud_region \<Rightarrow> cloud_region" where
  "loadRegionControllers db r =
     r\<lparr>Controllers :=
         concat (map (\<lambda>ctl.
                   map (\<lambda>p. \<lparr>CloudRegionID = reg_ID r, Controller = ctl, Priority = Priority p\<rparr>)
                     (filter (\<lambda>p. CloudRegionID p = reg_ID r) (CloudRegions ctl)))
                 (controllers db))\<rparr>"

definition GetCloud :: "catalog \<Rightarrow> string \<Rightarrow> err + cloud" where
  "GetCloud db name =
     (case filter (\<lambda>c. cloud_Name c = name) (clouds db) of
        [] \<Rightarrow> Inl (E CodeNotFound ''cloud not found'')
      | c # _ \<Rightarrow> Inr (c\<lparr>Regions := map (loadRegionControllers db) (Regions c)\<rparr>))"

definition GetCloudCredential :: "catalog \<Rightarrow> string \<Rightarrow> string \<Rightarrow> string \<Rightarrow> err + cloud_credential" where
  "GetCloudCredential db cloudName ownerID name =
     (case filter (\<lambda>c. cred_CloudName c = cloudName \<and> OwnerID c = ownerID \<and> cred_Name c = name)
             (credentials db) of
        [] \<Rightarrow> Inl (E CodeNotFound ''cloudcredential not found'')
      | c # _ \<Rightarrow> Inr c)"

definition GetUserCloudCredentials :: "catalog \<Rightarrow> user \<Rightarrow> string \<Rightarrow> err + cloud_credential list" where
  "GetUserCloudCredentials db u cloudName =
     Inr (filter (\<lambda>c. OwnerID c = Username u \<and> cred_CloudName c = cloudName) (credentials db))"

section \<open>shuffleRegionControllers\<close>

text \<open>
  \<open>shuffle\<close> is a package variable of type \<open>func(int, func(int, int))\<close>, by default
  \<open>rand.Shuffle\<close>, replaced in tests. It is a parameter here: given the length, the
  sequence of index pairs it passes to the swap callback. The callback swaps two elements
  of the slice and panics on an index out of range.
\<close>

type_synonym shuffle = "nat \<Rightarrow> (nat \<times> nat) list"

definition swap :: "nat \<Rightarrow> nat \<Rightarrow> 'a list \<Rightarrow> err + 'a list" where
  "swap i j xs =
     (if i < length xs \<and> j < length xs
      then Inr (xs[i := xs ! j, j := xs ! i])
      else Inl (Panic ''index out of range''))"

fun applySwaps :: "(nat \<times> nat) list \<Rightarrow> 'a list \<Rightarrow> err + 'a list" where
  "applySwaps [] xs = Inr xs"
| "applySwaps ((i, j) # ss) xs =
     (case swap i j xs of Inl e \<Rightarrow> Inl e | Inr ys \<Rightarrow> applySwaps ss ys)"

text \<open>
  \<open>sort.SliceStable\<close> sorts by the given \<open>less\<close> function (here \<open>lt\<close>) and keeps the original order of equal
  elements. It is the stable insertion sort: an element moves behind exactly those
  elements that are less than it.
\<close>

fun insertStable :: "('a \<Rightarrow> 'a \<Rightarrow> bool) \<Rightarrow> 'a \<Rightarrow> 'a list \<Rightarrow> 'a list" where
  "insertStable lt x [] = [x]"
| "insertStable lt x (y # ys) =
     (if lt y x then y # insertStable lt x ys else x # y # ys)"

definition SliceStable :: "('a \<Rightarrow> 'a \<Rightarrow> bool) \<Rightarrow> 'a list \<Rightarrow> 'a list" where
  "SliceStable lt xs = foldr (insertStable lt) xs []"

definition shuffleRegionControllers ::
  "shuffle \<Rightarrow> controller cloud_region_controller_priority list
     \<Rightarrow> err + controller cloud_region_controller_priority list" where
  "shuffleRegionControllers shuffle ctls =
     (case applySwaps (shuffle (length ctls)) ctls of
        Inl e \<Rightarrow> Inl e
      | Inr cs \<Rightarrow> Inr (SliceStable (\<lambda>a b. Priority a > Priority b) cs))"

section \<open>The model builder\<close>

text \<open>
  The fields of \<open>modelBuilder\<close>, prefixed with \<open>b_\<close>; a nil pointer is \<open>None\<close>. The
  \<open>config\<close> map is passed through to the controller unread and is left out.
\<close>

record modelBuilder =
  b_err :: "err option"
  b_name :: string
  b_user :: "user option"
  b_owner :: "user option"
  b_credential :: "cloud_credential option"
  b_controller :: "controller option"
  b_cloud :: "cloud option"
  b_cloudRegion :: string
  b_cloudRegionID :: nat
  b_model :: "model option"
  b_modelInfo :: "model_info option"

definition newModelBuilder :: modelBuilder where
  "newModelBuilder =
     \<lparr>b_err = None, b_name = [], b_user = None, b_owner = None, b_credential = None,
      b_controller = None, b_cloud = None, b_cloudRegion = [], b_cloudRegionID = 0,
      b_model = None, b_modelInfo = None\<rparr>"

definition WithName :: "modelBuilder \<Rightarrow> string \<Rightarrow> modelBuilder" where
  "WithName b name = b\<lparr>b_name := name\<rparr>"

definition WithUser :: "modelBuilder \<Rightarrow> user \<Rightarrow> modelBuilder" where
  "WithUser b u =
     (let b1 = b\<lparr>b_user := Some u\<rparr>
      in case b_owner b1 of
           None \<Rightarrow> b1
         | Some owner \<Rightarrow>
             if Username owner \<noteq> Username u \<and> ControllerAccess u \<noteq> ''superuser''
             then b1\<lparr>b_err := Some (E CodeUnauthorized [])\<rparr>
             else b1)"

definition WithOwner :: "catalog \<Rightarrow> modelBuilder \<Rightarrow> string \<Rightarrow> modelBuilder" where
  "WithOwner db b owner =
     (if b_err b \<noteq> None then b
      else
        let b1 = (case b_user b of
                    None \<Rightarrow> b
                  | Some u \<Rightarrow>
                      if owner \<noteq> Username u \<and> ControllerAccess u \<noteq> ''superuser''
                      then b\<lparr>b_err := Some (E CodeUnauthorized [])\<rparr>
                      else b)
        in case GetUser db owner of
             Inl e \<Rightarrow> b1\<lparr>b_err := Some e, b_owner := Some (zero_user\<lparr>Username := owner\<rparr>)\<rparr>
           | Inr u \<Rightarrow> b1\<lparr>b_owner := Some u\<rparr>)"

definition WithCloud :: "catalog \<Rightarrow> modelBuilder \<Rightarrow> string \<Rightarrow> modelBuilder" where
  "WithCloud db b cloud =
     (if b_err b \<noteq> None then b
      else case GetCloud db cloud of
             Inl e \<Rightarrow> b\<lparr>b_err := Some e\<rparr>
           | Inr c \<Rightarrow> b\<lparr>b_cloud := Some c\<rparr>)"

text \<open>
  \<open>WithCloudRegion\<close>. When the region has no controllers the error is set but the
  function goes on, and \<open>regionControllers[0]\<close> panics. The check after the loop runs
  whether or not a region matched.
\<close>

definition regionNotFound :: "string \<Rightarrow> modelBuilder \<Rightarrow> modelBuilder" where
  "regionNotFound region b =
     (if b_cloudRegionID b = 0
      then b\<lparr>b_err := Some (E NoCode (''cloud region '' @ region @ '' not found''))\<rparr>
      else b)"

definition WithCloudRegion :: "shuffle \<Rightarrow> modelBuilder \<Rightarrow> string \<Rightarrow> err + modelBuilder" where
  "WithCloudRegion shuffle b region =
     (if b_err b \<noteq> None then Inr b
      else case b_cloud b of
             None \<Rightarrow> Inr (b\<lparr>b_err := Some (E NoCode ''cloud not specified'')\<rparr>)
           | Some cloud \<Rightarrow>
               (case filter (\<lambda>r. reg_Name r = region) (Regions cloud) of
                  [] \<Rightarrow> Inr (regionNotFound region b)
                | r # _ \<Rightarrow>
                    let regionControllers = Controllers r;
                        b1 = (if length regionControllers = 0
                              then b\<lparr>b_err := Some (E CodeBadRequest
                                     (''unsupported cloud region '' @ cloud_Name cloud @ ''/'' @ region))\<rparr>
                              else b)
                    in (case shuffleRegionControllers shuffle regionControllers of
                          Inl e \<Rightarrow> Inl e
                        | Inr [] \<Rightarrow> Inl (Panic ''index out of range'')
                        | Inr (c # _) \<Rightarrow>
                            Inr (regionNotFound region
                                   (b1\<lparr>b_cloudRegion := region,
                                       b_cloudRegionID := CloudRegionID c,
                                       b_controller := Some (Controller c)\<rparr>)))))"

definition zero_cloud_credential :: cloud_credential where
  "zero_cloud_credential =
     \<lparr>cred_ID = 0, cred_Name = [], cred_CloudName = [], OwnerID = [], AuthType = [],
      Valid = None, Revoked = False, AttributesInVault = False, Attributes = []\<rparr>"

text \<open>A credential tag names the cloud, the owner and the credential.\<close>

definition WithCloudCredential ::
  "catalog \<Rightarrow> modelBuilder \<Rightarrow> string \<times> string \<times> string \<Rightarrow> modelBuilder" where
  "WithCloudCredential db b credentialTag =
     (if b_err b \<noteq> None then b
      else case credentialTag of (cloudName, owner, name) \<Rightarrow>
        (case GetCloudCredential db cloudName owner name of
           Inl e \<Rightarrow>
             b\<lparr>b_err := Some (E (ErrorCode e) ''failed to fetch cloud credentials''),
               b_credential := Some (zero_cloud_credential
                 \<lparr>cred_Name := name, cred_CloudName := cloudName, OwnerID := owner\<rparr>)\<rparr>
         | Inr c \<Rightarrow> b\<lparr>b_credential := Some c\<rparr>))"

definition selectCloudRegion :: "shuffle \<Rightarrow> modelBuilder \<Rightarrow> err + (err option \<times> modelBuilder)" where
  "selectCloudRegion shuffle b =
     (if b_cloudRegionID b \<noteq> 0 then Inr (None, b)
      else case b_cloud b of
             None \<Rightarrow> Inr (Some (E NoCode ''cloud not specified''), b)
           | Some cloud \<Rightarrow>
               let regionControllers = concat (map Controllers (Regions cloud))
               in if length regionControllers = 0
                  then Inr (Some (E NoCode (''unsupported cloud '' @ cloud_Name cloud)), b)
                  else (case shuffleRegionControllers shuffle regionControllers of
                          Inl e \<Rightarrow> Inl e
                        | Inr [] \<Rightarrow> Inl (Panic ''index out of range'')
                        | Inr (c # _) \<Rightarrow>
                            Inr (None, b\<lparr>b_cloudRegionID := CloudRegionID c,
                                          b_controller := Some (Controller c)\<rparr>)))"

definition selectCloudCredentials :: "catalog \<Rightarrow> modelBuilder \<Rightarrow> err option \<times> modelBuilder" where
  "selectCloudCredentials db b =
     (case b_user b of
        None \<Rightarrow> (Some (E NoCode ''user not specified''), b)
      | Some u \<Rightarrow>
          (case b_cloud b of
             None \<Rightarrow> (Some (E NoCode ''cloud not specified''), b)
           | Some cloud \<Rightarrow>
               (case GetUserCloudCredentials db u (cloud_Name cloud) of
                  Inl e \<Rightarrow> (Some (E (ErrorCode e) ''failed to fetch user cloud credentials''), b)
                | Inr creds \<Rightarrow>
                    (case filter (\<lambda>credential. Valid credential = Some True) creds of
                       [] \<Rightarrow> (Some (E NoCode ''valid cloud credentials not found''), b)
                     | credential # _ \<Rightarrow> (None, b\<lparr>b_credential := Some credential\<rparr>)))))"

section \<open>Catalog writes used by AddModel\<close>

text \<open>
  Modelled from the spec: \<open>Database.AddModel\<close>, \<open>DeleteModel\<close> and \<open>UpdateModel\<close>
  (package \<open>internal/db\<close>, not among the sources). A model is unique by
  \<open>(owner, name)\<close> and by its UUID once it has one; a uniqueness violation is
  \<open>AlreadyExists\<close> and a missing row \<open>NotFound\<close>. A new row gets a primary key that no
  row has.
\<close>

definition nextModelID :: "catalog \<Rightarrow> nat" where
  "nextModelID db = Suc (fold max (map m_ID (models db)) 0)"

definition Database_AddModel :: "catalog \<Rightarrow> model \<Rightarrow> err + (catalog \<times> model)" where
  "Database_AddModel db m =
     (if filter (\<lambda>r. m_Name r = m_Name m \<and> Username (Owner r) = Username (Owner m)) (models db) \<noteq> []
      then Inl (E CodeAlreadyExists ''model already exists'')
      else let m' = m\<lparr>m_ID := nextModelID db\<rparr>
           in Inr (db\<lparr>models := models db @ [m']\<rparr>, m'))"

definition Database_DeleteModel :: "catalog \<Rightarrow> model \<Rightarrow> err + catalog" where
  "Database_DeleteModel db m =
     (if filter (\<lambda>r. m_ID r = m_ID m) (models db) = []
      then Inl (E CodeNotFound ''model not found'')
      else Inr (db\<lparr>models := filter (\<lambda>r. m_ID r \<noteq> m_ID m) (models db)\<rparr>))"

definition Database_UpdateModel :: "catalog \<Rightarrow> model \<Rightarrow> err + catalog" where
  "Database_UpdateModel db m =
     (if filter (\<lambda>r. m_ID r = m_ID m) (models db) = []
      then Inl (E CodeNotFound ''model not found'')
      else if filter (\<lambda>r. m_ID r \<noteq> m_ID m \<and> UUID r \<noteq> None \<and> UUID r = UUID m) (models db) \<noteq> []
      then Inl (E CodeAlreadyExists ''model already exists'')
      else Inr (db\<lparr>models := map (\<lambda>r. if m_ID r = m_ID m then m else r) (models db)\<rparr>))"

section \<open>CreateDatabaseModel and Cleanup\<close>

definition zero_controller :: controller where
  "zero_controller =
     \<lparr>ctl_ID = 0, ctl_Name = [], ctl_UUID = [], AdminUser = [], AdminPassword = [],
      ctl_CloudName = [], ctl_CloudRegion = [], CloudRegions = []\<rparr>"

definition zero_model :: model where
  "zero_model =
     \<lparr>m_ID = 0, m_Name = [], UUID = None, Owner = zero_user, ControllerID = 0,
      m_Controller = zero_controller, m_CloudRegionID = 0, CloudCredentialID = 0,
      Life = [], Machines = [], Users = []\<rparr>"

text \<open>
  The three middle steps of \<open>CreateDatabaseModel\<close>. Neither the missing controller nor
  the failed credential selection returns: the error is set and the function goes on to
  build the model row, where \<open>b.controller.ID\<close> or \<open>b.credential.ID\<close> dereferences nil.
\<close>

definition checkController :: "modelBuilder \<Rightarrow> modelBuilder" where
  "checkController b =
     (if b_controller b = None
      then b\<lparr>b_err := Some (E NoCode ''unable to determine a suitable controller'')\<rparr>
      else b)"

definition ensureCredential :: "catalog \<Rightarrow> modelBuilder \<Rightarrow> modelBuilder" where
  "ensureCredential db b =
     (if b_credential b = None
      then (case selectCloudCredentials db b of
              (Some e, b') \<Rightarrow>
                b'\<lparr>b_err := Some (E (ErrorCode e) ''could not select cloud credentials'')\<rparr>
            | (None, b') \<Rightarrow> b')
      else b)"

definition storeModel :: "jimm \<Rightarrow> modelBuilder \<Rightarrow> err + (modelBuilder \<times> jimm)" where
  "storeModel j b =
     (case b_controller b of
        None \<Rightarrow> Inl (Panic ''nil pointer dereference'')
      | Some ctl \<Rightarrow>
          (case b_owner b of
             None \<Rightarrow> Inl (Panic ''nil pointer dereference'')
           | Some owner \<Rightarrow>
               (case b_credential b of
                  None \<Rightarrow> Inl (Panic ''nil pointer dereference'')
                | Some cred \<Rightarrow>
                    let m = zero_model\<lparr>m_Name := b_name b, ControllerID := ctl_ID ctl,
                              Owner := owner, CloudCredentialID := cred_ID cred,
                              m_CloudRegionID := b_cloudRegionID b\<rparr>
                    in (case Database_AddModel (Database j) m of
                          Inl e \<Rightarrow>
                            if ErrorCode e = CodeAlreadyExists
                            then Inr (b\<lparr>b_model := Some m,
                                        b_err := Some (E CodeAlreadyExists
                                          (''model '' @ Username owner @ ''/'' @ b_name b
                                             @ '' already exists''))\<rparr>, j)
                            else Inr (b\<lparr>b_model := Some m,
                                        b_err := Some (E (ErrorCode e)
                                          ''failed to store model information'')\<rparr>, j)
                        | Inr (db', m') \<Rightarrow>
                            Inr (b\<lparr>b_model := Some m'\<rparr>,
                                 record_event (CatalogWrite ''AddModel'')
                                   (j\<lparr>Database := db'\<rparr>))))))"

definition CreateDatabaseModel :: "shuffle \<Rightarrow> jimm \<Rightarrow> modelBuilder \<Rightarrow> err + (modelBuilder \<times> jimm)" where
  "CreateDatabaseModel shuffle j b =
     (if b_err b \<noteq> None then Inr (b, j)
      else if b_name b = []
      then Inr (b\<lparr>b_err := Some (E NoCode ''model name not specified'')\<rparr>, j)
      else if b_owner b = None
      then Inr (b\<lparr>b_err := Some (E NoCode ''owner not specified'')\<rparr>, j)
      else (case (if b_cloudRegionID b = 0 then selectCloudRegion shuffle b else Inr (None, b)) of
              Inl p \<Rightarrow> Inl p
            | Inr (Some e, b1) \<Rightarrow> Inr (b1\<lparr>b_err := Some e\<rparr>, j)
            | Inr (None, b1) \<Rightarrow>
                storeModel j (ensureCredential (Database j) (checkController b1))))"

text \<open>\<open>Cleanup\<close>: a failure of \<open>DeleteModel\<close> is logged and nothing else.\<close>

definition Cleanup :: "jimm \<Rightarrow> modelBuilder \<Rightarrow> jimm" where
  "Cleanup j b =
     (if b_err b = None then j
      else case b_model b of
             None \<Rightarrow> j
           | Some m \<Rightarrow>
               (case Database_DeleteModel (Database j) m of
                  Inl derr \<Rightarrow> j
                | Inr db' \<Rightarrow> record_event (CatalogWrite ''DeleteModel'') (j\<lparr>Database := db'\<rparr>)))"

section \<open>CreateControllerModel and UpdateDatabaseModel\<close>

definition credentialPath :: "cloud_credential \<Rightarrow> string" where
  "credentialPath cred = cred_CloudName cred @ ''/'' @ OwnerID cred @ ''/'' @ cred_Name cred"

definition fillCredentialAttributes :: "jimm \<Rightarrow> cloud_credential \<Rightarrow> err + cloud_credential" where
  "fillCredentialAttributes j cred =
     (if \<not> AttributesInVault cred \<or> length (Attributes cred) > 0 then Inr cred
      else case VaultClient j of
             None \<Rightarrow> Inl (E NoCode ''vault not configured'')
           | Some logical \<Rightarrow>
               (case logical (''creds/'' @ credentialPath cred) of
                  Inl e \<Rightarrow> Inl e
                | Inr None \<Rightarrow>
                    if AuthType cred = ''empty'' then Inr cred
                    else Inl (E NoCode ''credential attributes not found'')
                | Inr (Some secret) \<Rightarrow> Inr (cred\<lparr>Attributes := secret\<rparr>)))"

definition updateCredential ::
  "controller_api \<Rightarrow> jimm \<Rightarrow> cloud_credential \<Rightarrow> err option \<times> cloud_credential \<times> jimm" where
  "updateCredential api j cred =
     (case fillCredentialAttributes j cred of
        Inl e \<Rightarrow> (Some e, cred, j)
      | Inr cred' \<Rightarrow>
          (api_UpdateCredential api cred', cred',
           record_event (ControllerCall ''UpdateCredential'') j))"

definition jujuModelCreateArgs :: "modelBuilder \<Rightarrow> err + model_create_args" where
  "jujuModelCreateArgs b =
     (if b_name b = [] then Inl (E NoCode ''model name not specified'')
      else case b_owner b of
        None \<Rightarrow> Inl (E NoCode ''model owner not specified'')
      | Some owner \<Rightarrow>
          (case b_cloud b of
             None \<Rightarrow> Inl (E NoCode ''cloud not specified'')
           | Some cloud \<Rightarrow>
               if b_cloudRegionID b = 0 then Inl (E NoCode ''cloud region not specified'')
               else (case b_credential b of
                       None \<Rightarrow> Inl (E NoCode ''credentials not specified'')
                     | Some cred \<Rightarrow>
                         Inr \<lparr>mca_Name = b_name b,
                              mca_OwnerTag = ''user-'' @ Username owner,
                              mca_CloudTag = ''cloud-'' @ cloud_Name cloud,
                              mca_CloudRegion = b_cloudRegion b,
                              mca_CloudCredentialTag = ''cloudcred-'' @ credentialPath cred\<rparr>)))"

text \<open>The \<open>switch jujuparams.ErrCode(err)\<close> on a failed \<open>CreateModel\<close>.\<close>

definition createModelError :: "err \<Rightarrow> err" where
  "createModelError e =
     (if ErrorCode e = CodeAlreadyExists then E CodeAlreadyExists ''model name in use''
      else if ErrorCode e = CodeUpgradeInProgress then E CodeUpgradeInProgress ''upgrade in progress''
      else E CodeBadRequest [])"

definition set_err :: "err \<Rightarrow> modelBuilder \<Rightarrow> modelBuilder" where
  "set_err e b = b\<lparr>b_err := Some e\<rparr>"

definition CreateControllerModel ::
  "controller_api \<Rightarrow> jimm \<Rightarrow> modelBuilder \<Rightarrow> err + (modelBuilder \<times> jimm)" where
  "CreateControllerModel api j b =
     (if b_err b \<noteq> None then Inr (b, j)
      else if b_model b = None then Inr (set_err (E NoCode ''model not specified'') b, j)
      else case b_controller b of
        None \<Rightarrow> Inl (Panic ''nil pointer dereference'')
      | Some ctl \<Rightarrow>
          (case dial api ctl of
             Some e \<Rightarrow> Inr (set_err e b, j)
           | None \<Rightarrow>
               (case (case b_credential b of
                        None \<Rightarrow> (None, b, j)
                      | Some cred \<Rightarrow>
                          (case updateCredential api j cred of
                             (e, cred', j') \<Rightarrow> (e, b\<lparr>b_credential := Some cred'\<rparr>, j'))) of
                  (Some e, b1, j1) \<Rightarrow>
                    Inr (set_err (E (ErrorCode e) ''failed to update cloud credential'') b1, j1)
                | (None, b1, j1) \<Rightarrow>
                    (case jujuModelCreateArgs b1 of
                       Inl e \<Rightarrow> Inr (set_err e b1, j1)
                     | Inr args \<Rightarrow>
                         let j2 = record_event (ControllerCall ''CreateModel'') j1
                         in (case api_CreateModel api args of
                               Inl e \<Rightarrow> Inr (set_err (createModelError e) b1, j2)
                             | Inr info \<Rightarrow>
                                 let j3 = record_event (ControllerCall ''GrantJIMMModelAdmin'') j2
                                 in (case api_GrantJIMMModelAdmin api (mi_UUID info) of
                                       Some e \<Rightarrow> Inr (set_err e b1, j3)
                                     | None \<Rightarrow> Inr (b1\<lparr>b_modelInfo := Some info\<rparr>, j3)))))))"

text \<open>
  Modelled from the spec: \<open>Model.FromJujuModelInfo\<close> (package \<open>dbmodel\<close>, not among
  the sources) copies what the controller reports into the row (name, UUID, life, users,
  machines), keeps the primary key, and fails when the owner tag is not a user tag.
\<close>

definition FromJujuModelInfo :: "model \<Rightarrow> model_info \<Rightarrow> err + model" where
  "FromJujuModelInfo m info =
     (if take 5 (mi_OwnerTag info) \<noteq> ''user-'' then Inl (E NoCode ''invalid owner tag'')
      else Inr (m\<lparr>m_Name := mi_Name info,
                  UUID := Some (mi_UUID info),
                  Life := mi_Life info,
                  Machines := map (\<lambda>mm. \<lparr>MachineID = mmi_Id mm, InstanceID = mmi_InstanceId mm\<rparr>)
                                (mi_Machines info),
                  Users := map (\<lambda>mu. zero_user_model_access
                                  \<lparr>User := zero_user\<lparr>Username := UserName mu,
                                                      DisplayName := mui_DisplayName mu\<rparr>,
                                   Access := mui_Access mu\<rparr>)
                             (mi_Users info)\<rparr>))"

text \<open>
  \<open>filterModelUserAccesses\<close>: users of the controller itself (no \<open>@\<close> in the name) are
  dropped; the others are looked up in the catalog, and a failed lookup ends the loop.
\<close>

fun filterAccesses :: "catalog \<Rightarrow> user_model_access list \<Rightarrow> err + user_model_access list" where
  "filterAccesses db [] = Inr []"
| "filterAccesses db (access # rest) =
     (if CHR ''@'' \<notin> set (Username (User access)) then filterAccesses db rest
      else case GetUser db (Username (User access)) of
             Inl e \<Rightarrow> Inl e
           | Inr u \<Rightarrow>
               (case filterAccesses db rest of
                  Inl e \<Rightarrow> Inl e
                | Inr a \<Rightarrow> Inr (access\<lparr>User := u\<rparr> # a)))"

definition UpdateDatabaseModel :: "jimm \<Rightarrow> modelBuilder \<Rightarrow> err + (modelBuilder \<times> jimm)" where
  "UpdateDatabaseModel j b =
     (if b_err b \<noteq> None then Inr (b, j)
      else case (b_model b, b_modelInfo b, b_controller b, b_credential b) of
        (Some m, Some info, Some ctl, Some cred) \<Rightarrow>
          (case FromJujuModelInfo m info of
             Inl e \<Rightarrow> Inr (set_err (E (ErrorCode e) ''failed to convert model info'') b, j)
           | Inr m1 \<Rightarrow>
               let m2 = m1\<lparr>ControllerID := ctl_ID ctl, CloudCredentialID := cred_ID cred,
                           m_CloudRegionID := b_cloudRegionID b\<rparr>
               in (case filterAccesses (Database j) (Users m2) of
                     Inl e \<Rightarrow> Inr (set_err e (b\<lparr>b_model := Some m2\<rparr>), j)
                   | Inr a \<Rightarrow>
                       let m3 = m2\<lparr>Users := a\<rparr>
                       in (case Database_UpdateModel (Database j) m3 of
                             Inl e \<Rightarrow>
                               Inr (set_err (E (ErrorCode e) ''failed to store model information'')
                                      (b\<lparr>b_model := Some m3\<rparr>), j)
                           | Inr db' \<Rightarrow>
                               Inr (b\<lparr>b_model := Some m3\<rparr>,
                                    record_event (CatalogWrite ''UpdateModel'')
                                      (j\<lparr>Database := db'\<rparr>)))))
      | _ \<Rightarrow> Inl (Panic ''nil pointer dereference''))"

section \<open>JIMM.AddModel\<close>

text \<open>
  \<open>ModelCreateArgs\<close>. The zero cloud tag is the empty name; the zero credential tag is
  \<open>None\<close>.
\<close>

record ModelCreateArgs =
  a_Name :: string
  a_Owner :: string
  a_Cloud :: string
  a_CloudRegion :: string
  a_CloudCredential :: "(string \<times> string \<times> string) option"

text \<open>
  The first part of \<open>AddModel\<close>: the \<open>With...\<close> calls, each followed by the check of
  \<open>builder.Error()\<close>. \<open>Inl\<close> is the error returned (or the panic).
\<close>

definition checked :: "modelBuilder \<Rightarrow> err + modelBuilder" where
  "checked b = (case b_err b of Some e \<Rightarrow> Inl e | None \<Rightarrow> Inr b)"

definition prepareBuilder :: "shuffle \<Rightarrow> catalog \<Rightarrow> user \<Rightarrow> ModelCreateArgs \<Rightarrow> err + modelBuilder" where
  "prepareBuilder shuffle db u args =
     (case checked (WithUser (WithName newModelBuilder (a_Name args)) u) of
        Inl e \<Rightarrow> Inl e
      | Inr b1 \<Rightarrow>
     (case checked (WithOwner db b1 (a_Owner args)) of
        Inl e \<Rightarrow> Inl e
      | Inr b2 \<Rightarrow>
     (case (if a_Cloud args \<noteq> [] then checked (WithCloud db b2 (a_Cloud args)) else Inr b2) of
        Inl e \<Rightarrow> Inl e
      | Inr b3 \<Rightarrow>
     (case (if a_CloudRegion args \<noteq> []
            then (case WithCloudRegion shuffle b3 (a_CloudRegion args) of
                    Inl p \<Rightarrow> Inl p
                  | Inr b \<Rightarrow> checked b)
            else Inr b3) of
        Inl e \<Rightarrow> Inl e
      | Inr b4 \<Rightarrow>
     (case a_CloudCredential args of
        None \<Rightarrow> Inr b4
      | Some tag \<Rightarrow> checked (WithCloudCredential db b4 tag))))))"

text \<open>
  \<open>AddModel\<close>. \<open>defer builder.Cleanup()\<close> is registered once \<open>CreateDatabaseModel\<close> has
  succeeded, so \<open>Cleanup\<close> runs on every later exit, with the builder as it is then.
\<close>

definition AddModel ::
  "shuffle \<Rightarrow> controller_api \<Rightarrow> jimm \<Rightarrow> user \<Rightarrow> ModelCreateArgs
     \<Rightarrow> (err + model_info option) \<times> jimm" where
  "AddModel shuffle api j u args =
     (case prepareBuilder shuffle (Database j) u args of
        Inl e \<Rightarrow> (Inl e, j)
      | Inr b5 \<Rightarrow>
     (case CreateDatabaseModel shuffle j b5 of
        Inl p \<Rightarrow> (Inl p, j)
      | Inr (b6, j6) \<Rightarrow>
     (case b_err b6 of
        Some e \<Rightarrow> (Inl e, j6)
      | None \<Rightarrow>
     (case CreateControllerModel api j6 b6 of
        Inl p \<Rightarrow> (Inl p, Cleanup j6 b6)
      | Inr (b7, j7) \<Rightarrow>
     (case b_err b7 of
        Some e \<Rightarrow> (Inl e, Cleanup j7 b7)
      | None \<Rightarrow>
     (case UpdateDatabaseModel j7 b7 of
        Inl p \<Rightarrow> (Inl p, Cleanup j7 b7)
      | Inr (b8, j8) \<Rightarrow>
     (case b_err b8 of
        Some e \<Rightarrow> (Inl e, Cleanup j8 b8)
      | None \<Rightarrow> (Inr (b_modelInfo b8), Cleanup j8 b8))))))))"

section \<open>JIMM.AddController\<close>

text \<open>
  What the controller reports about itself: the summary of its controller model and its
  clouds. Go iterates over the map of clouds in no fixed order; here it is a list in
  the order of the iteration.
\<close>

record model_summary =
  ms_CloudTag :: string
  ms_CloudRegion :: string

record juju_cloud =
  jc_Type :: string
  jc_Regions :: "string list"

record cloud_user_info =
  cui_UserName :: string
  cui_DisplayName :: string
  cui_Access :: string

text \<open>
  The collaborators of \<open>AddController\<close>, as inputs: the authorization check, the calls
  to the controller, and whether the secret store accepts a write.
\<close>

record add_controller_env =
  IsAdministrator :: "user \<Rightarrow> err + bool"
  env_dial :: "controller \<Rightarrow> err option"
  api_ControllerModelSummary :: "err + model_summary"
  api_Clouds :: "err + (string \<times> juju_cloud) list"
  api_CloudInfo :: "string \<Rightarrow> err + cloud_user_info list"
  PutControllerCredentials_err :: "err option"

text \<open>
  The two priorities of package \<open>dbmodel\<close>, whose declaration is not among the sources,
  are parameters.
\<close>

record priorities =
  CloudRegionControllerPrioritySupported :: nat
  CloudRegionControllerPriorityDeployed :: nat

definition ParseCloudTag :: "string \<Rightarrow> err + string" where
  "ParseCloudTag tag =
     (if take 6 tag = ''cloud-'' \<and> drop 6 tag \<noteq> [] then Inr (drop 6 tag)
      else Inl (E NoCode ''not a valid cloud tag''))"

definition cloudUsers :: "add_controller_env \<Rightarrow> string \<Rightarrow> err + user_cloud_access list" where
  "cloudUsers env tag =
     (case api_CloudInfo env tag of
        Inl e \<Rightarrow> Inl e
      | Inr ci \<Rightarrow>
          Inr (map (\<lambda>u. \<lparr>uca_Username = cui_UserName u,
                         uca_User = zero_user\<lparr>Username := cui_UserName u,
                                             DisplayName := cui_DisplayName u\<rparr>,
                         uca_CloudName = [],
                         uca_Access = cui_Access u\<rparr>)
                 (filter (\<lambda>u. CHR ''@'' \<in> set (cui_UserName u)) ci)))"

definition zero_cloud_region :: cloud_region where
  "zero_cloud_region = \<lparr>reg_ID = 0, reg_CloudName = [], reg_Name = [], Controllers = []\<rparr>"

text \<open>
  Modelled from the spec: \<open>Cloud.FromJujuCloud\<close>, \<open>Cloud.Region\<close> and
  \<open>Cloud.UserAccess\<close> (package \<open>dbmodel\<close>, not among the sources): the type and the
  regions of a reported cloud; the region of a cloud by name, the zero region when it
  has none; the access of a user on a cloud, empty when there is none.
\<close>

definition FromJujuCloud :: "juju_cloud \<Rightarrow> cloud" where
  "FromJujuCloud cld =
     \<lparr>cloud_Name = [], cloud_Type = jc_Type cld,
      Regions = map (\<lambda>n. zero_cloud_region\<lparr>reg_Name := n\<rparr>) (jc_Regions cld),
      cloud_Users = []\<rparr>"

definition Region :: "cloud \<Rightarrow> string \<Rightarrow> cloud_region" where
  "Region c name =
     (case filter (\<lambda>r. reg_Name r = name) (Regions c) of
        [] \<Rightarrow> zero_cloud_region
      | r # _ \<Rightarrow> r)"

definition cloud_UserAccess :: "cloud \<Rightarrow> user \<Rightarrow> string" where
  "cloud_UserAccess c u =
     (case filter (\<lambda>a. uca_Username a = Username u) (cloud_Users c) of
        [] \<Rightarrow> []
      | a # _ \<Rightarrow> uca_Access a)"

text \<open>The body of the loop over the reported clouds that builds \<open>dbClouds\<close>.\<close>

definition everyone :: string where
  "everyone = ''everyone@external''"

definition importedCloud :: "add_controller_env \<Rightarrow> model_summary \<Rightarrow> string \<times> juju_cloud \<Rightarrow> cloud" where
  "importedCloud env ms tc =
     (case tc of (tag, cld) \<Rightarrow>
        let cloud = (FromJujuCloud cld)\<lparr>cloud_Name := tag\<rparr>
        in if ''cloud-'' @ tag \<noteq> ms_CloudTag ms
           then (case cloudUsers env tag of
                   Inl e \<Rightarrow> cloud\<lparr>cloud_Users := []\<rparr>
                 | Inr us \<Rightarrow> cloud\<lparr>cloud_Users := us\<rparr>)
           else cloud\<lparr>cloud_Users :=
                  [\<lparr>uca_Username = everyone,
                    uca_User = zero_user\<lparr>Username := everyone\<rparr>,
                    uca_CloudName = [],
                    uca_Access = ''add-model''\<rparr>]\<rparr>)"

text \<open>
  Modelled from the spec: the catalog writes of the transaction (package
  \<open>internal/db\<close>, not among the sources). Clouds are unique by name, regions by name
  within their cloud, controllers by name; a uniqueness violation is \<open>AlreadyExists\<close>,
  a missing parent \<open>NotFound\<close>. New rows get primary keys that no row has.
\<close>

definition nextRegionID :: "catalog \<Rightarrow> nat" where
  "nextRegionID db = Suc (fold max (map reg_ID (concat (map Regions (clouds db)))) 0)"

fun assignRegionIDs :: "nat \<Rightarrow> string \<Rightarrow> cloud_region list \<Rightarrow> cloud_region list" where
  "assignRegionIDs n cname [] = []"
| "assignRegionIDs n cname (r # rs) =
     r\<lparr>reg_ID := n, reg_CloudName := cname\<rparr> # assignRegionIDs (Suc n) cname rs"

definition Database_AddCloud :: "catalog \<Rightarrow> cloud \<Rightarrow> err + catalog" where
  "Database_AddCloud db c =
     (if filter (\<lambda>r. cloud_Name r = cloud_Name c) (clouds db) \<noteq> []
      then Inl (E CodeAlreadyExists ''cloud already exists'')
      else Inr (db\<lparr>clouds := clouds db @
             [c\<lparr>Regions := assignRegionIDs (nextRegionID db) (cloud_Name c) (Regions c),
                cloud_Users := map (\<lambda>a. a\<lparr>uca_CloudName := cloud_Name c\<rparr>) (cloud_Users c)\<rparr>]\<rparr>))"

definition Database_AddCloudRegion :: "catalog \<Rightarrow> cloud_region \<Rightarrow> err + (catalog \<times> cloud_region)" where
  "Database_AddCloudRegion db reg =
     (case filter (\<lambda>c. cloud_Name c = reg_CloudName reg) (clouds db) of
        [] \<Rightarrow> Inl (E CodeNotFound ''cloud not found'')
      | c # _ \<Rightarrow>
          if filter (\<lambda>r. reg_Name r = reg_Name reg) (Regions c) \<noteq> []
          then Inl (E CodeAlreadyExists ''cloud-region already exists'')
          else let reg' = reg\<lparr>reg_ID := nextRegionID db\<rparr>
               in Inr (db\<lparr>clouds :=
                          map (\<lambda>d. if cloud_Name d = reg_CloudName reg
                                   then d\<lparr>Regions := Regions d @ [reg']\<rparr> else d)
                            (clouds db)\<rparr>, reg'))"

definition Database_UpdateUserCloudAccess :: "catalog \<Rightarrow> user_cloud_access \<Rightarrow> err + catalog" where
  "Database_UpdateUserCloudAccess db uca =
     (if filter (\<lambda>c. cloud_Name c = uca_CloudName uca) (clouds db) = []
      then Inl (E CodeNotFound ''cloud not found'')
      else Inr (db\<lparr>clouds :=
             map (\<lambda>d. if cloud_Name d = uca_CloudName uca
                      then d\<lparr>cloud_Users :=
                             filter (\<lambda>a. uca_Username a \<noteq> uca_Username uca) (cloud_Users d) @ [uca]\<rparr>
                      else d)
               (clouds db)\<rparr>))"

definition nextControllerID :: "catalog \<Rightarrow> nat" where
  "nextControllerID db = Suc (fold max (map ctl_ID (controllers db)) 0)"

definition Database_AddController :: "catalog \<Rightarrow> controller \<Rightarrow> err + (catalog \<times> controller)" where
  "Database_AddController db ctl =
     (if filter (\<lambda>r. ctl_Name r = ctl_Name ctl \<or> ctl_UUID r = ctl_UUID ctl) (controllers db) \<noteq> []
      then Inl (E CodeAlreadyExists ''controller already exists'')
      else let ctl' = ctl\<lparr>ctl_ID := nextControllerID db\<rparr>
           in Inr (db\<lparr>controllers := controllers db @ [ctl']\<rparr>, ctl'))"

text \<open>The three inner loops of the transaction, for one reported cloud.\<close>

fun addRegions :: "catalog \<Rightarrow> cloud \<Rightarrow> cloud_region list \<Rightarrow> err + (catalog \<times> cloud)" where
  "addRegions db cloud [] = Inr (db, cloud)"
| "addRegions db cloud (reg # rest) =
     (if reg_ID (Region cloud (reg_Name reg)) \<noteq> 0 then addRegions db cloud rest
      else case Database_AddCloudRegion db (reg\<lparr>reg_CloudName := cloud_Name cloud\<rparr>) of
             Inl e \<Rightarrow> Inl e
           | Inr (db', reg') \<Rightarrow>
               addRegions db' (cloud\<lparr>Regions := Regions cloud @ [reg']\<rparr>) rest)"

fun addUsers :: "catalog \<Rightarrow> cloud \<Rightarrow> user_cloud_access list \<Rightarrow> err + (catalog \<times> cloud)" where
  "addUsers db cloud [] = Inr (db, cloud)"
| "addUsers db cloud (uca # rest) =
     (if cloud_UserAccess cloud (uca_User uca) \<noteq> [] then addUsers db cloud rest
      else let uca' = uca\<lparr>uca_Username := Username (uca_User uca),
                          uca_CloudName := cloud_Name cloud\<rparr>
           in case Database_UpdateUserCloudAccess db uca' of
                Inl e \<Rightarrow> Inl e
              | Inr db' \<Rightarrow>
                  addUsers db' (cloud\<lparr>cloud_Users := cloud_Users cloud @ [uca']\<rparr>) rest)"

definition regionPriorities ::
  "priorities \<Rightarrow> controller \<Rightarrow> cloud \<Rightarrow> cloud_region list
     \<Rightarrow> unit cloud_region_controller_priority list" where
  "regionPriorities pr ctl cloud regions =
     map (\<lambda>cr. \<lparr>CloudRegionID = reg_ID (Region cloud (reg_Name cr)),
                Controller = (),
                Priority = (if cloud_Name cloud = ctl_CloudName ctl
                               \<and> reg_Name cr = ctl_CloudRegion ctl
                            then CloudRegionControllerPriorityDeployed pr
                            else CloudRegionControllerPrioritySupported pr)\<rparr>)
       regions"

definition getOrAddCloud :: "catalog \<Rightarrow> cloud \<Rightarrow> err + (catalog \<times> cloud)" where
  "getOrAddCloud db dbCloud =
     (case GetCloud db (cloud_Name dbCloud) of
        Inr c \<Rightarrow> Inr (db, c)
      | Inl e \<Rightarrow>
          if ErrorCode e \<noteq> CodeNotFound then Inl e
          else (case Database_AddCloud db dbCloud of
                  Inl e' \<Rightarrow>
                    if ErrorCode e' \<noteq> CodeAlreadyExists then Inl e'
                    else (case GetCloud db (cloud_Name dbCloud) of
                            Inl e'' \<Rightarrow> Inl e''
                          | Inr c \<Rightarrow> Inr (db, c))
                | Inr db' \<Rightarrow>
                    (case GetCloud db' (cloud_Name dbCloud) of
                       Inl e'' \<Rightarrow> Inl e''
                     | Inr c \<Rightarrow> Inr (db', c))))"

definition txCloud :: "priorities \<Rightarrow> catalog \<times> controller \<Rightarrow> cloud \<Rightarrow> err + (catalog \<times> controller)" where
  "txCloud pr s dbCloud =
     (case s of (db, ctl) \<Rightarrow>
        (case getOrAddCloud db dbCloud of
           Inl e \<Rightarrow> Inl e
         | Inr (db1, cloud) \<Rightarrow>
             (case addRegions db1 cloud (Regions dbCloud) of
                Inl e \<Rightarrow> Inl e
              | Inr (db2, cloud2) \<Rightarrow>
                  (case addUsers db2 cloud2 (cloud_Users dbCloud) of
                     Inl e \<Rightarrow> Inl e
                   | Inr (db3, cloud3) \<Rightarrow>
                       Inr (db3, ctl\<lparr>CloudRegions := CloudRegions ctl
                                    @ regionPriorities pr ctl cloud3 (Regions dbCloud)\<rparr>)))))"

fun txClouds :: "priorities \<Rightarrow> catalog \<times> controller \<Rightarrow> cloud list \<Rightarrow> err + (catalog \<times> controller)" where
  "txClouds pr s [] = Inr s"
| "txClouds pr s (dbCloud # rest) =
     (case txCloud pr s dbCloud of Inl e \<Rightarrow> Inl e | Inr s' \<Rightarrow> txClouds pr s' rest)"

text \<open>
  The function passed to \<open>Database.Transaction\<close>: when it fails, nothing it wrote is
  kept, so the caller goes on with the catalog it had.
\<close>

definition txBody ::
  "priorities \<Rightarrow> bool \<Rightarrow> catalog \<Rightarrow> controller \<Rightarrow> cloud list \<Rightarrow> err + (catalog \<times> controller)" where
  "txBody pr credentialsStored db ctl dbClouds =
     (case txClouds pr (db, ctl) dbClouds of
        Inl e \<Rightarrow> Inl e
      | Inr (db1, ctl1) \<Rightarrow>
          let ctl2 = (if credentialsStored
                      then ctl1\<lparr>AdminUser := [], AdminPassword := []\<rparr>
                      else ctl1)
          in (case Database_AddController db1 ctl2 of
                Inl e \<Rightarrow>
                  if ErrorCode e = CodeAlreadyExists
                  then Inl (E CodeAlreadyExists
                              (''controller '' @ ctl_Name ctl2 @ '' already exists''))
                  else Inl e
              | Inr r \<Rightarrow> Inr r))"

text \<open>
  Modelled from the spec: the secret store (section 4.2) keeps, under the name of a
  controller, its admin user and password; a put replaces what was there.
\<close>

definition PutControllerCredentials ::
  "(string \<times> string \<times> string) list \<Rightarrow> string \<Rightarrow> string \<Rightarrow> string
     \<Rightarrow> (string \<times> string \<times> string) list" where
  "PutControllerCredentials store name username password =
     (name, username, password) # filter (\<lambda>entry. fst entry \<noteq> name) store"

definition GetControllerCredentials ::
  "(string \<times> string \<times> string) list \<Rightarrow> string \<Rightarrow> (string \<times> string) option" where
  "GetControllerCredentials store name =
     (case filter (\<lambda>entry. fst entry = name) store of
        [] \<Rightarrow> None
      | entry # _ \<Rightarrow> Some (snd entry))"

definition storeControllerCredentials ::
  "add_controller_env \<Rightarrow> jimm \<Rightarrow> controller \<Rightarrow> err + (bool \<times> jimm)" where
  "storeControllerCredentials env j ctl =
     (case CredentialStore j of
        None \<Rightarrow> Inr (False, j)
      | Some store \<Rightarrow>
          (case PutControllerCredentials_err env of
             Some e \<Rightarrow> Inl e
           | None \<Rightarrow>
               Inr (True,
                    record_event (SecretStoreWrite ''PutControllerCredentials'')
                      (j\<lparr>CredentialStore :=
                            Some (PutControllerCredentials store (ctl_Name ctl)
                                    (AdminUser ctl) (AdminPassword ctl))\<rparr>))))"

text \<open>
  The relations written to the authorization store after the transaction. A failure of
  any of them is logged and nothing else, so they are events only. A cloud access that
  \<open>ToCloudRelation\<close> does not know (anything but \<open>admin\<close> and \<open>add-model\<close>) is skipped.
\<close>

definition relationEvents :: "cloud list \<Rightarrow> event list" where
  "relationEvents dbClouds =
     concat (map (\<lambda>cloud.
               TupleWrite ''AddCloudController''
               # map (\<lambda>uca. TupleWrite ''SetCloudAccess'')
                   (filter (\<lambda>uca. uca_Access uca = ''admin'' \<or> uca_Access uca = ''add-model'')
                      (cloud_Users cloud)))
             dbClouds)
     @ [TupleWrite ''AddController'']"

definition AddController ::
  "priorities \<Rightarrow> add_controller_env \<Rightarrow> jimm \<Rightarrow> user \<Rightarrow> controller \<Rightarrow> err option \<times> jimm" where
  "AddController pr env j u ctl =
     (case IsAdministrator env u of
        Inl e \<Rightarrow> (Some (E CodeUnauthorized ''unauthorized''), j)
      | Inr isJIMMAdmin \<Rightarrow>
     if \<not> isJIMMAdmin then (Some (E CodeUnauthorized ''unauthorized''), j)
     else
     (case env_dial env ctl of
        Some e \<Rightarrow> (Some (E (ErrorCode e) ''failed to dial the controller''), j)
      | None \<Rightarrow>
     (case api_ControllerModelSummary env of
        Inl e \<Rightarrow> (Some (E (ErrorCode e) ''failed to get model summary''), j)
      | Inr ms \<Rightarrow>
     (case ParseCloudTag (ms_CloudTag ms) of
        Inl e \<Rightarrow> (Some (E (ErrorCode e) ''failed to parse the cloud tag''), j)
      | Inr ct \<Rightarrow>
     (let ctl1 = ctl\<lparr>ctl_CloudName := ct, ctl_CloudRegion := ms_CloudRegion ms\<rparr>
      in
     (case api_Clouds env of
        Inl e \<Rightarrow> (Some (E (ErrorCode e) ''failed to fetch controller clouds''), j)
      | Inr cls \<Rightarrow>
     (let dbClouds = map (importedCloud env ms) cls
      in
     (case storeControllerCredentials env j ctl1 of
        Inl e \<Rightarrow> (Some (E (ErrorCode e) ''failed to store controller credentials''), j)
      | Inr (credentialsStored, j1) \<Rightarrow>
     (case txBody pr credentialsStored (Database j1) ctl1 dbClouds of
        Inl e \<Rightarrow> (Some e, j1)
      | Inr (db', ctl') \<Rightarrow>
          (None, j1\<lparr>Database := db',
                    log := log j1 @ CatalogWrite ''AddController''
                             # relationEvents dbClouds\<rparr>))))))))))"

section \<open>The authorization store (package openfga)\<close>

text \<open>
  \<open>ofganames.Tag\<close>: a kind, an identifier and an optional relation, printed as
  \<open>kind:id#relation\<close>. A \<open>Tuple\<close> relates an object to a target; the object is a
  pointer that a read pattern leaves nil, and the relation of a pattern may be empty.
  The target is never nil in the functions below (\<open>createTupleKey\<close> dereferences it
  unconditionally).
\<close>

record tag =
  Kind :: string
  tag_ID :: string
  tag_Relation :: string

record Tuple =
  Object :: "tag option"
  Relation :: string
  Target :: tag

text \<open>\<open>openfga.TupleKey\<close>: user and relation are optional.\<close>

record tuple_key =
  tk_User :: "tag option"
  tk_Relation :: "string option"
  tk_Object :: tag

record ReadResponse =
  Tuples :: "Tuple list"
  PaginationToken :: nat

text \<open>
  Modelled from the spec: the tuple store behind \<open>openfga.OpenFgaApi\<close> is an external
  service (section 4.3): \<open>write\<close> and \<open>delete\<close> are idempotent batch mutations, and
  \<open>read\<close> is a paginated scan over the tuples that match a partial pattern. A pattern
  matches a stored tuple when each part it gives is equal, an object without identifier
  standing for every object of its kind. A continuation token is the offset of the next
  page in the matching tuples, the number 0 being the empty token; a read without page
  size uses the store's default. A mutation needs complete keys. A store that is not
  available fails every call.
\<close>

record openfga_api =
  tuple_keys :: "tuple_key list"
  available :: bool
  default_page_size :: nat

definition key_matches :: "tuple_key \<Rightarrow> tuple_key \<Rightarrow> bool" where
  "key_matches p t =
     ((tk_User p = None \<or> tk_User p = tk_User t)
      \<and> (tk_Relation p = None \<or> tk_Relation p = tk_Relation t)
      \<and> (if tag_ID (tk_Object p) = [] then Kind (tk_Object p) = Kind (tk_Object t)
          else tk_Object p = tk_Object t))"

definition complete_key :: "tuple_key \<Rightarrow> bool" where
  "complete_key k = (tk_User k \<noteq> None \<and> tk_Relation k \<noteq> None \<and> tk_Relation k \<noteq> Some [])"

definition api_Read ::
  "openfga_api \<Rightarrow> tuple_key option \<Rightarrow> nat option \<Rightarrow> nat \<Rightarrow> err + (tuple_key list \<times> nat)" where
  "api_Read s key pageSize token =
     (if \<not> available s then Inl (E NoCode ''openfga: not available'')
      else let ms = (case key of None \<Rightarrow> tuple_keys s
                     | Some k \<Rightarrow> filter (key_matches k) (tuple_keys s));
               n = (case pageSize of None \<Rightarrow> default_page_size s | Some n \<Rightarrow> n)
           in Inr (take n (drop token ms),
                   if token + n < length ms then token + n else 0))"

definition api_Write_deletes :: "openfga_api \<Rightarrow> tuple_key list \<Rightarrow> err + openfga_api" where
  "api_Write_deletes s keys =
     (if \<not> available s then Inl (E NoCode ''openfga: not available'')
      else if filter (\<lambda>k. \<not> complete_key k) keys \<noteq> []
      then Inl (E CodeBadRequest ''openfga: invalid tuple key'')
      else Inr (s\<lparr>tuple_keys := filter (\<lambda>t. t \<notin> set keys) (tuple_keys s)\<rparr>))"

definition api_Write_writes :: "openfga_api \<Rightarrow> tuple_key list \<Rightarrow> err + openfga_api" where
  "api_Write_writes s keys =
     (if \<not> available s then Inl (E NoCode ''openfga: not available'')
      else if filter (\<lambda>k. \<not> complete_key k) keys \<noteq> []
      then Inl (E CodeBadRequest ''openfga: invalid tuple key'')
      else Inr (s\<lparr>tuple_keys := tuple_keys s
                     @ filter (\<lambda>k. k \<notin> set (tuple_keys s)) (remdups keys)\<rparr>))"

section \<open>OFGAClient\<close>

definition createTupleKey :: "Tuple \<Rightarrow> tuple_key" where
  "createTupleKey tuple =
     \<lparr>tk_User = Object tuple,
      tk_Relation = (if Relation tuple \<noteq> [] then Some (Relation tuple) else None),
      tk_Object = Target tuple\<rparr>"

definition addRelation :: "openfga_api \<Rightarrow> Tuple list \<Rightarrow> err + openfga_api" where
  "addRelation s tuples = api_Write_writes s (map createTupleKey tuples)"

definition removeRelation :: "openfga_api \<Rightarrow> Tuple list \<Rightarrow> err + openfga_api" where
  "removeRelation s tuples = api_Write_deletes s (map createTupleKey tuples)"

definition getRelatedObjects ::
  "openfga_api \<Rightarrow> Tuple option \<Rightarrow> nat \<Rightarrow> nat \<Rightarrow> err + (tuple_key list \<times> nat)" where
  "getRelatedObjects s tuple pageSize paginationToken =
     api_Read s (map_option createTupleKey tuple)
       (if pageSize \<noteq> 0 then Some pageSize else None) paginationToken"

text \<open>
  \<open>ReadRelatedObjects\<close> turns the keys of the answer back into tuples;
  \<open>ofganames.FromString\<close> fails on a key without user.
\<close>

fun keysToTuples :: "tuple_key list \<Rightarrow> err + Tuple list" where
  "keysToTuples [] = Inr []"
| "keysToTuples (key # rest) =
     (case tk_User key of
        None \<Rightarrow> Inl (E NoCode ''failed to parse tag'')
      | Some u \<Rightarrow>
          (case keysToTuples rest of
             Inl e \<Rightarrow> Inl e
           | Inr keys \<Rightarrow>
               Inr (\<lparr>Object = Some u,
                     Relation = (case tk_Relation key of None \<Rightarrow> [] | Some r \<Rightarrow> r),
                     Target = tk_Object key\<rparr> # keys)))"

definition ReadRelatedObjects ::
  "openfga_api \<Rightarrow> Tuple option \<Rightarrow> nat \<Rightarrow> nat \<Rightarrow> err + ReadResponse" where
  "ReadRelatedObjects s tuple pageSize paginationToken =
     (case getRelatedObjects s tuple pageSize paginationToken of
        Inl e \<Rightarrow> Inl e
      | Inr (ks, token) \<Rightarrow>
          (case keysToTuples ks of
             Inl e \<Rightarrow> Inl e
           | Inr keys \<Rightarrow> Inr \<lparr>Tuples = keys, PaginationToken = token\<rparr>))"

definition AddRelations :: "openfga_api \<Rightarrow> Tuple list \<Rightarrow> err + openfga_api" where
  "AddRelations s tuples = addRelation s tuples"

definition RemoveRelation :: "openfga_api \<Rightarrow> Tuple list \<Rightarrow> err + openfga_api" where
  "RemoveRelation s tuples = removeRelation s tuples"

text \<open>
  \<open>removeTuples\<close>: the loop reads a page of 50 with the token of the previous answer
  (the empty token first), deletes what it got, and goes on as long as the token of the
  answer differs from the token it sent.
\<close>

function removeLoop :: "openfga_api \<Rightarrow> Tuple \<Rightarrow> nat \<Rightarrow> err + openfga_api" where
  "removeLoop s tuple token =
     (case ReadRelatedObjects s (Some tuple) 50 token of
        Inl e \<Rightarrow> Inl e
      | Inr resp \<Rightarrow>
          (case (if length (Tuples resp) > 0 then RemoveRelation s (Tuples resp) else Inr s) of
             Inl e \<Rightarrow> Inl e
           | Inr s' \<Rightarrow>
               if token \<noteq> PaginationToken resp
               then removeLoop s' tuple (PaginationToken resp)
               else Inr s'))"
  by pat_completeness auto
termination
proof (relation "measures [\<lambda>(s, tuple, token).
                             length (filter (key_matches (createTupleKey tuple)) (tuple_keys s)),
                           \<lambda>(s, tuple, token). if token = 0 then 0 else 1]", goal_cases)
  case 1
  show ?case by simp
next
  case (2 s tuple token resp s')
  let ?p = "key_matches (createTupleKey tuple)"
  let ?ms = "filter ?p (tuple_keys s)"
  let ?page = "take 50 (drop token ?ms)"
  from 2(1) have page: "keysToTuples ?page = Inr (Tuples resp)"
    and tok: "PaginationToken resp = (if token + 50 < length ?ms then token + 50 else 0)"
    by (auto simp: ReadRelatedObjects_def getRelatedObjects_def api_Read_def Let_def
             split: if_splits sum.splits)
  have roundtrip: "map createTupleKey ts = ks"
    if "keysToTuples ks = Inr ts" "\<forall>k \<in> set (map createTupleKey ts). complete_key k" for ks ts
    using that
  proof (induction ks arbitrary: ts)
    case Nil
    then show ?case by simp
  next
    case (Cons k ks)
    from Cons.prems(1) obtain u ts' where u: "tk_User k = Some u"
      and ts': "keysToTuples ks = Inr ts'"
      and ts: "ts = \<lparr>Object = Some u,
                     Relation = (case tk_Relation k of None \<Rightarrow> [] | Some r \<Rightarrow> r),
                     Target = tk_Object k\<rparr> # ts'"
      by (auto split: option.splits sum.splits)
    from Cons.prems(2) ts have c: "complete_key (createTupleKey \<lparr>Object = Some u,
                     Relation = (case tk_Relation k of None \<Rightarrow> [] | Some r \<Rightarrow> r),
                     Target = tk_Object k\<rparr>)"
      and rest: "\<forall>k \<in> set (map createTupleKey ts'). complete_key k" by simp_all
    from c u have "createTupleKey \<lparr>Object = Some u,
                     Relation = (case tk_Relation k of None \<Rightarrow> [] | Some r \<Rightarrow> r),
                     Target = tk_Object k\<rparr> = k"
      by (cases "tk_Relation k") (auto simp: createTupleKey_def complete_key_def)
    with Cons.IH [OF ts' rest] ts show ?case by simp
  qed
  show ?case
  proof (cases "Tuples resp = []")
    case True
    with page have "?page = []" by (cases ?page) (auto split: option.splits sum.splits)
    then have "length ?ms \<le> token" by simp
    with tok have "PaginationToken resp = 0" by simp
    moreover from True 2(2) have "s' = s" by simp
    ultimately show ?thesis using 2(3) by simp
  next
    case False
    with 2(2) have rm: "RemoveRelation s (Tuples resp) = Inr s'" by simp
    then have valid: "\<forall>k \<in> set (map createTupleKey (Tuples resp)). complete_key k"
      and s': "tuple_keys s' = filter (\<lambda>t. t \<notin> set (map createTupleKey (Tuples resp))) (tuple_keys s)"
      by (auto simp: RemoveRelation_def removeRelation_def api_Write_deletes_def
                     filter_empty_conv split: if_splits)
    from roundtrip [OF page valid] have keys: "map createTupleKey (Tuples resp) = ?page" .
    from False page have "?page \<noteq> []" by auto
    then obtain x where x: "x \<in> set ?page" by (cases ?page) auto
    then have xm: "x \<in> set ?ms" by (meson in_set_dropD in_set_takeD)
    have "filter ?p (tuple_keys s') = filter (\<lambda>t. t \<notin> set ?page) ?ms"
      unfolding s' keys by (simp add: conj_commute)
    moreover have "length (filter (\<lambda>t. t \<notin> set ?page) ?ms) < length ?ms"
      using xm x by (intro length_filter_less [of x]) simp_all
    ultimately show ?thesis by simp
  qed
qed

declare removeLoop.simps [simp del]

definition removeTuples :: "openfga_api \<Rightarrow> Tuple \<Rightarrow> err + openfga_api" where
  "removeTuples s tuple = removeLoop s tuple 0"

text \<open>The tag kinds of packages \<open>names\<close> and \<open>jimmnames\<close>, and the relation \<open>member\<close>.\<close>

definition UserTagKind :: string where "UserTagKind = ''user''"
definition ModelTagKind :: string where "ModelTagKind = ''model''"
definition ControllerTagKind :: string where "ControllerTagKind = ''controller''"
definition ApplicationOfferTagKind :: string where "ApplicationOfferTagKind = ''applicationoffer''"
definition CloudTagKind :: string where "CloudTagKind = ''cloud''"
definition GroupTagKind :: string where "GroupTagKind = ''group''"
definition MemberRelation :: string where "MemberRelation = ''member''"

definition resourceTypes :: "string list" where
  "resourceTypes =
     [UserTagKind, ModelTagKind, ControllerTagKind, ApplicationOfferTagKind, GroupTagKind]"

text \<open>
  Modelled from the spec: \<open>ofganames.FromTag\<close>, \<open>FromTagWithRelation\<close> and
  \<open>BlankKindTag\<close> (package \<open>openfga/names\<close>, not among the sources). A group tag
  carries the numeric id of the group; a blank kind tag has a kind and no identifier,
  and an unknown kind is rejected. The kinds are the typed identifiers of section 3.
\<close>

definition FromTag :: "string \<Rightarrow> string \<Rightarrow> tag" where
  "FromTag kind ident = \<lparr>Kind = kind, tag_ID = ident, tag_Relation = []\<rparr>"

definition FromTagWithRelation :: "string \<Rightarrow> string \<Rightarrow> string \<Rightarrow> tag" where
  "FromTagWithRelation kind ident relation = \<lparr>Kind = kind, tag_ID = ident, tag_Relation = relation\<rparr>"

definition BlankKindTag :: "string \<Rightarrow> err + tag" where
  "BlankKindTag kind =
     (if kind \<in> set [UserTagKind, ModelTagKind, ControllerTagKind, ApplicationOfferTagKind,
                      CloudTagKind, GroupTagKind]
      then Inr \<lparr>Kind = kind, tag_ID = [], tag_Relation = []\<rparr>
      else Inl (E NoCode ''unknown tag kind''))"

text \<open>\<open>RemoveGroup\<close>: the loop over \<open>resourceTypes\<close> is \<open>removeKinds\<close>.\<close>

fun removeKinds :: "openfga_api \<Rightarrow> string \<Rightarrow> string list \<Rightarrow> err + openfga_api" where
  "removeKinds s grp [] = Inr s"
| "removeKinds s grp (kind # rest) =
     (case BlankKindTag kind of
        Inl e \<Rightarrow> Inl e
      | Inr kt \<Rightarrow>
          (case removeTuples s
                  \<lparr>Object = Some (FromTagWithRelation GroupTagKind grp MemberRelation),
                   Relation = [], Target = kt\<rparr> of
             Inl e \<Rightarrow> Inl e
           | Inr s' \<Rightarrow> removeKinds s' grp rest))"

definition RemoveGroup :: "openfga_api \<Rightarrow> string \<Rightarrow> err + openfga_api" where
  "RemoveGroup s grp =
     (case removeTuples s
             \<lparr>Object = None, Relation = MemberRelation, Target = FromTag GroupTagKind grp\<rparr> of
        Inl e \<Rightarrow> Inl e
      | Inr s1 \<Rightarrow> removeKinds s1 grp resourceTypes)"

section \<open>Groups\<close>

text \<open>
  Modelled from the spec: the group table of the catalog (\<open>dbmodel.GroupEntry\<close> and the
  \<open>Database\<close> methods \<open>AddGroup\<close>, \<open>GetGroup\<close> and \<open>UpdateGroup\<close>, not among the sources).
  A group has a unique name and a numeric id; ids increase with every group added and are
  never reused or changed. A missing row is \<open>NotFound\<close>, a name already in use is
  \<open>AlreadyExists\<close>.
\<close>

record group_entry =
  ge_ID :: nat
  ge_Name :: string

definition nextGroupID :: "group_entry list \<Rightarrow> nat" where
  "nextGroupID gs = Suc (fold max (map ge_ID gs) 0)"

definition Database_AddGroup :: "group_entry list \<Rightarrow> string \<Rightarrow> err + group_entry list" where
  "Database_AddGroup gs name =
     (if filter (\<lambda>g. ge_Name g = name) gs \<noteq> []
      then Inl (E CodeAlreadyExists ''group already exists'')
      else Inr (gs @ [\<lparr>ge_ID = nextGroupID gs, ge_Name = name\<rparr>]))"

definition Database_GetGroup :: "group_entry list \<Rightarrow> string \<Rightarrow> err + group_entry" where
  "Database_GetGroup gs name =
     (case filter (\<lambda>g. ge_Name g = name) gs of
        [] \<Rightarrow> Inl (E CodeNotFound ''group not found'')
      | g # _ \<Rightarrow> Inr g)"

definition Database_UpdateGroup :: "group_entry list \<Rightarrow> group_entry \<Rightarrow> err + group_entry list" where
  "Database_UpdateGroup gs g =
     (if filter (\<lambda>g'. ge_Name g' = ge_Name g \<and> ge_ID g' \<noteq> ge_ID g) gs \<noteq> []
      then Inl (E CodeAlreadyExists ''group already exists'')
      else Inr (map (\<lambda>g'. if ge_ID g' = ge_ID g then g else g') gs))"

text \<open>
  Modelled from the spec: \<open>GroupEntry.ResourceTag\<close>, the tag of a group, which carries the
  numeric id in decimal (the first group of a catalog has the tag \<open>group-1\<close>), and the part
  of \<open>ResolveTag\<close> that maps \<open>group-<name>#<relation>\<close> to the tag of the group of that
  name.
\<close>

fun decimal :: "nat \<Rightarrow> string" where
  "decimal n =
     (if n < 10 then [char_of (48 + n)]
      else decimal (n div 10) @ [char_of (48 + n mod 10)])"

declare decimal.simps [simp del]

definition group_ResourceTag :: "group_entry \<Rightarrow> string" where
  "group_ResourceTag g = decimal (ge_ID g)"

definition ResolveTag_group :: "group_entry list \<Rightarrow> string \<Rightarrow> string \<Rightarrow> err + tag" where
  "ResolveTag_group gs name relation =
     (case Database_GetGroup gs name of
        Inl e \<Rightarrow> Inl e
      | Inr g \<Rightarrow> Inr (FromTagWithRelation GroupTagKind (group_ResourceTag g) relation))"

text \<open>
  Modelled from the spec: the \<open>Check\<close> call of the authorization service. A check of
  \<open>(object, relation, target)\<close> is allowed when the target is reachable from the object
  through the relation: by a tuple of the store, or by a tuple that grants the relation to
  the members of a group of which the object is, in the same sense, a member.
\<close>

inductive api_Check :: "tuple_key list \<Rightarrow> tag \<Rightarrow> string \<Rightarrow> tag \<Rightarrow> bool"
  for ts :: "tuple_key list" where
  direct:
    "\<lparr>tk_User = Some u, tk_Relation = Some r, tk_Object = obj\<rparr> \<in> set ts
     \<Longrightarrow> api_Check ts u r obj"
| through_group:
    "\<lparr>tk_User = Some (FromTagWithRelation GroupTagKind g MemberRelation),
      tk_Relation = Some r, tk_Object = obj\<rparr> \<in> set ts
     \<Longrightarrow> api_Check ts u MemberRelation (FromTag GroupTagKind g)
     \<Longrightarrow> api_Check ts u r obj"

code_pred api_Check .

text \<open>
  \<open>CheckRelation\<close> (\<open>checkRelation\<close>): the tuple is turned into a key and checked by the
  service; the trace is left out. A tuple with no object or no relation is refused by the
  service.
\<close>

definition CheckRelation :: "openfga_api \<Rightarrow> Tuple \<Rightarrow> err + bool" where
  "CheckRelation s tuple =
     (let t = createTupleKey tuple
      in if \<not> available s then Inl (E NoCode ''openfga: not available'')
         else (case (tk_User t, tk_Relation t) of
                 (Some u, Some r) \<Rightarrow> Inr (api_Check (tuple_keys s) u r (tk_Object t))
               | _ \<Rightarrow> Inl (E CodeBadRequest ''openfga: invalid tuple key'')))"

text \<open>
  Modelled from the spec: \<open>JIMM.RenameGroup\<close> (not among the sources; \<open>TestRenameGroup\<close>
  calls it). Only a JIMM administrator may rename a group; the group is looked up by its
  old name and its row is updated with the new name, in one transaction. The rename is
  name-only: the id is kept and the authorization store is not touched.
\<close>

record openfga_user =
  ofga_User :: user
  JimmAdmin :: bool

record jimm_groups =
  Groups :: "group_entry list"
  OpenFGAClient :: openfga_api

definition RenameGroup ::
  "jimm_groups \<Rightarrow> openfga_user \<Rightarrow> string \<Rightarrow> string \<Rightarrow> err + jimm_groups" where
  "RenameGroup j usr oldName newName =
     (if \<not> JimmAdmin usr then Inl (E CodeUnauthorized ''unauthorized'')
      else (case Database_GetGroup (Groups j) oldName of
              Inl e \<Rightarrow> Inl e
            | Inr grp \<Rightarrow>
                (case Database_UpdateGroup (Groups j) (grp\<lparr>ge_Name := newName\<rparr>) of
                   Inl e \<Rightarrow> Inl e
                 | Inr gs \<Rightarrow> Inr (j\<lparr>Groups := gs\<rparr>))))"

section \<open>A concrete catalog\<close>

text \<open>
  The scenario of the access tests: the model \<open>bob/m\<close> on controller \<open>c1\<close>, owned by
  \<open>bob\<close>, on which \<open>bob\<close> and \<open>alice\<close> are administrators and \<open>carol\<close> is a reader, and
  a controller that accepts every request.
\<close>

definition ex_bob :: user where
  "ex_bob = \<lparr>u_ID = 1, Username = ''bob@external'', DisplayName = ''Bob'',
             ControllerAccess = ''login''\<rparr>"

definition ex_alice :: user where
  "ex_alice = \<lparr>u_ID = 2, Username = ''alice@external'', DisplayName = ''Alice'',
               ControllerAccess = ''login''\<rparr>"

definition ex_carol :: user where
  "ex_carol = \<lparr>u_ID = 3, Username = ''carol@external'', DisplayName = ''Carol'',
               ControllerAccess = ''login''\<rparr>"

definition ex_controller :: controller where
  "ex_controller =
     \<lparr>ctl_ID = 1, ctl_Name = ''c1'', ctl_UUID = ''00000001'', AdminUser = [],
      AdminPassword = [], ctl_CloudName = ''dummy'', ctl_CloudRegion = ''r'',
      CloudRegions = [\<lparr>CloudRegionID = 1, Controller = (), Priority = 10\<rparr>]\<rparr>"

definition ex_model :: model where
  "ex_model =
     \<lparr>m_ID = 1, m_Name = ''m'', UUID = Some ''00000002'', Owner = ex_bob,
      ControllerID = 1, m_Controller = ex_controller, m_CloudRegionID = 1,
      CloudCredentialID = 1, Life = ''alive'',
      Machines = [\<lparr>MachineID = ''0'', InstanceID = ''i-0''\<rparr>],
      Users = [\<lparr>uma_ID = 1, UserID = 1, User = ex_bob, Access = ''admin''\<rparr>,
               \<lparr>uma_ID = 2, UserID = 2, User = ex_alice, Access = ''admin''\<rparr>,
               \<lparr>uma_ID = 3, UserID = 3, User = ex_carol, Access = ''read''\<rparr>]\<rparr>"

definition ex_cloud :: cloud where
  "ex_cloud =
     \<lparr>cloud_Name = ''dummy'', cloud_Type = ''dummy'',
      Regions = [\<lparr>reg_ID = 1, reg_CloudName = ''dummy'', reg_Name = ''r'', Controllers = []\<rparr>],
      cloud_Users = []\<rparr>"

definition ex_cred :: cloud_credential where
  "ex_cred =
     \<lparr>cred_ID = 1, cred_Name = ''cred'', cred_CloudName = ''dummy'',
      OwnerID = ''bob@external'', AuthType = ''empty'', Valid = Some True, Revoked = False,
      AttributesInVault = False, Attributes = []\<rparr>"

definition ex_catalog :: catalog where
  "ex_catalog =
     \<lparr>users = [ex_bob, ex_alice, ex_carol], clouds = [ex_cloud], credentials = [ex_cred],
      controllers = [ex_controller], models = [ex_model]\<rparr>"

definition ex_jimm :: jimm where
  "ex_jimm = \<lparr>Database = ex_catalog, CredentialStore = None, VaultClient = None, log = []\<rparr>"

definition ex_model_info :: model_info where
  "ex_model_info =
     \<lparr>mi_Name = ''m2'', mi_UUID = ''00000003'', mi_ControllerUUID = ''00000001'',
      mi_OwnerTag = ''user-bob@external'', mi_Life = ''alive'', mi_Users = [],
      mi_Machines = []\<rparr>"

definition ex_api :: controller_api where
  "ex_api =
     \<lparr>dial = (\<lambda>c. None),
      api_GrantModelAccess = (\<lambda>mt ut access. None),
      api_RevokeModelAccess = (\<lambda>mt ut access. None),
      api_UpdateCredential = (\<lambda>c. None),
      api_CreateModel = (\<lambda>args. Inr ex_model_info),
      api_GrantJIMMModelAdmin = (\<lambda>mt. None)\<rparr>"

text \<open>
  A request of \<open>bob\<close> for a new model \<open>m2\<close> in region \<open>r\<close> of cloud \<open>dummy\<close>, without
  a credential; a shuffle that leaves the order alone and one that swaps two candidates;
  a second controller \<open>c2\<close>, and the two \<open>(region, controller, priority)\<close> entries of
  region \<open>r\<close> with priority 10.
\<close>

definition ex_args :: ModelCreateArgs where
  "ex_args =
     \<lparr>a_Name = ''m2'', a_Owner = ''bob@external'', a_Cloud = ''dummy'', a_CloudRegion = ''r'',
      a_CloudCredential = None\<rparr>"

definition noShuffle :: shuffle where
  "noShuffle n = []"



definition ex_entry1 :: "controller cloud_region_controller_priority" where
  "ex_entry1 = \<lparr>CloudRegionID = 1, Controller = ex_controller, Priority = 10\<rparr>"


text \<open>
  The controller of the test environment, whose entry for its region has priority 0, and
  a credential that is valid and revoked.
\<close>

definition ex_controller_p0 :: controller where
  "ex_controller_p0 =
     ex_controller\<lparr>CloudRegions := [\<lparr>CloudRegionID = 1, Controller = (), Priority = 0\<rparr>]\<rparr>"

definition ex_jimm_p0 :: jimm where
  "ex_jimm_p0 = ex_jimm\<lparr>Database := ex_catalog\<lparr>controllers := [ex_controller_p0]\<rparr>\<rparr>"


text \<open>
  A process with a secret store, an administrator's request to add the controller \<open>c3\<close>
  with its admin password, and a controller that reports the cloud \<open>dummy\<close> with
  region \<open>r\<close>.
\<close>

definition ex_env :: add_controller_env where
  "ex_env =
     \<lparr>IsAdministrator = (\<lambda>u. Inr True),
      env_dial = (\<lambda>c. None),
      api_ControllerModelSummary = Inr \<lparr>ms_CloudTag = ''cloud-dummy'', ms_CloudRegion = ''r''\<rparr>,
      api_Clouds = Inr [(''dummy'', \<lparr>jc_Type = ''dummy'', jc_Regions = [''r'']\<rparr>)],
      api_CloudInfo = (\<lambda>tag. Inr []),
      PutControllerCredentials_err = None\<rparr>"

definition ex_priorities :: priorities where
  "ex_priorities =
     \<lparr>CloudRegionControllerPrioritySupported = 1, CloudRegionControllerPriorityDeployed = 10\<rparr>"

definition ex_new_controller :: controller where
  "ex_new_controller =
     \<lparr>ctl_ID = 0, ctl_Name = ''c3'', ctl_UUID = ''00000005'', AdminUser = ''admin'',
      AdminPassword = ''secret'', ctl_CloudName = [], ctl_CloudRegion = [], CloudRegions = []\<rparr>"

definition ex_jimm_store :: jimm where
  "ex_jimm_store = ex_jimm\<lparr>CredentialStore := Some []\<rparr>"

text \<open>
  An authorization store in which \<open>alice\<close> is a member of group 1, and group 1
  administers the controller \<open>c1\<close> and the cloud \<open>dummy\<close>.
\<close>

definition ex_tuple_member :: tuple_key where
  "ex_tuple_member =
     \<lparr>tk_User = Some (FromTag UserTagKind ''alice@external''),
      tk_Relation = Some MemberRelation,
      tk_Object = FromTag GroupTagKind ''1''\<rparr>"

definition ex_tuple_controller :: tuple_key where
  "ex_tuple_controller =
     \<lparr>tk_User = Some (FromTagWithRelation GroupTagKind ''1'' MemberRelation),
      tk_Relation = Some ''administrator'',
      tk_Object = FromTag ControllerTagKind ''00000001''\<rparr>"

definition ex_tuple_cloud :: tuple_key where
  "ex_tuple_cloud =
     \<lparr>tk_User = Some (FromTagWithRelation GroupTagKind ''1'' MemberRelation),
      tk_Relation = Some ''administrator'',
      tk_Object = FromTag CloudTagKind ''dummy''\<rparr>"

definition ex_openfga :: openfga_api where
  "ex_openfga =
     \<lparr>tuple_keys = [ex_tuple_member, ex_tuple_controller, ex_tuple_cloud],
      available = True, default_page_size = 50\<rparr>"

text \<open>
  The scenario of \<open>TestRenameGroup\<close>: \<open>alice\<close> is a member of the group \<open>test-group\<close>,
  whose members administer the controller and may write to the model \<open>bob/m\<close>.
\<close>

definition ex_group :: group_entry where
  "ex_group = \<lparr>ge_ID = 1, ge_Name = ''test-group''\<rparr>"

definition ex_tuple_model :: tuple_key where
  "ex_tuple_model =
     \<lparr>tk_User = Some (FromTagWithRelation GroupTagKind ''1'' MemberRelation),
      tk_Relation = Some ''writer'',
      tk_Object = FromTag ModelTagKind ''00000002''\<rparr>"

definition ex_groups :: jimm_groups where
  "ex_groups =
     \<lparr>Groups = [ex_group],
      OpenFGAClient = \<lparr>tuple_keys = [ex_tuple_member, ex_tuple_controller, ex_tuple_model],
                       available = True, default_page_size = 50\<rparr>\<rparr>"

definition ex_admin :: openfga_user where
  "ex_admin = \<lparr>ofga_User = ex_alice, JimmAdmin = True\<rparr>"

section \<open>Unfolding the concrete catalog\<close>

lemmas ex_defs = ex_bob_def ex_alice_def ex_carol_def ex_controller_def ex_model_def
  ex_catalog_def ex_jimm_def ex_api_def ex_model_info_def ex_cloud_def ex_cred_def

section \<open>Properties of JIMM.ModelInfo\<close>

lemma fold_pick:
  "fold (\<lambda>user modelUser. if UserName user = name then user else modelUser) us acc = acc
   \<or> (fold (\<lambda>user modelUser. if UserName user = name then user else modelUser) us acc \<in> set us
      \<and> UserName (fold (\<lambda>user modelUser. if UserName user = name then user else modelUser) us acc) = name)"
proof (induction us arbitrary: acc)
  case Nil
  then show ?case by simp
next
  case (Cons x xs)
  show ?case
  proof (cases "UserName x = name")
    case True
    with Cons.IH [of x] show ?thesis by auto
  next
    case False
    with Cons.IH [of acc] show ?thesis by auto
  qed
qed

lemma findModelUser_cases:
  "findModelUser name us = zero_model_user_info
   \<or> (findModelUser name us \<in> set us \<and> UserName (findModelUser name us) = name)"
  unfolding findModelUser_def by (rule fold_pick)

lemma findModelUser_own:
  assumes "mui_Access (findModelUser name us) \<noteq> []"
  shows "findModelUser name us \<in> set us \<and> UserName (findModelUser name us) = name"
  using findModelUser_cases [of name us] assms by (auto simp: zero_model_user_info_def)

text \<open>
  Claim C10. \<open>ModelInfo\<close> filters its result by the caller's access. For a caller who
  is not a controller superuser and whose entry on the model is not \<open>admin\<close>: with no
  access the call fails with the code \<open>Unauthorized\<close>; otherwise the user list of the
  result is the caller's own entry alone, the machine list is empty unless the access is
  \<open>write\<close>, and with \<open>write\<close> access the machines are all there.
\<close>

theorem ModelInfo_filters_by_access:
  assumes "GetModel db mt = Inr m"
    and "modelUser = findModelUser (Username u) (mi_Users (ToJujuModelInfo m))"
    and "ControllerAccess u \<noteq> ''superuser''"
    and "mui_Access modelUser \<noteq> ''admin''"
  shows "(mui_Access modelUser = [] \<longrightarrow> ModelInfo db u mt = Inl (E CodeUnauthorized []))
       \<and> (mui_Access modelUser \<noteq> [] \<longrightarrow>
            (\<exists>mi. ModelInfo db u mt = Inr mi
                \<and> mi_Users mi = [modelUser]
                \<and> UserName modelUser = Username u
                \<and> modelUser \<in> set (map WriteModelUserInfo (Users m))
                \<and> (mui_Access modelUser \<noteq> ''write'' \<longrightarrow> mi_Machines mi = [])
                \<and> (mui_Access modelUser = ''write'' \<longrightarrow>
                      mi_Machines mi = map WriteModelMachineInfo (Machines m))))"
proof (intro conjI impI)
  assume "mui_Access modelUser = []"
  with assms show "ModelInfo db u mt = Inl (E CodeUnauthorized [])"
    by (simp add: ModelInfo_def Let_def)
next
  assume a: "mui_Access modelUser \<noteq> []"
  have own: "modelUser \<in> set (mi_Users (ToJujuModelInfo m)) \<and> UserName modelUser = Username u"
    using findModelUser_own [of "Username u" "mi_Users (ToJujuModelInfo m)"] a assms(2) by simp
  have users: "mi_Users (ToJujuModelInfo m) = map WriteModelUserInfo (Users m)"
    and machines: "mi_Machines (ToJujuModelInfo m) = map WriteModelMachineInfo (Machines m)"
    by (simp_all add: ToJujuModelInfo_def)
  show "\<exists>mi. ModelInfo db u mt = Inr mi
                \<and> mi_Users mi = [modelUser]
                \<and> UserName modelUser = Username u
                \<and> modelUser \<in> set (map WriteModelUserInfo (Users m))
                \<and> (mui_Access modelUser \<noteq> ''write'' \<longrightarrow> mi_Machines mi = [])
                \<and> (mui_Access modelUser = ''write'' \<longrightarrow>
                      mi_Machines mi = map WriteModelMachineInfo (Machines m))"
  proof (cases "mui_Access modelUser = ''write''")
    case True
    with assms a own users machines show ?thesis
      by (simp add: ModelInfo_def Let_def)
  next
    case False
    with assms a own users machines show ?thesis
      by (simp add: ModelInfo_def Let_def)
  qed
qed

text \<open>
  The theorem at the concrete catalog: \<open>carol\<close>, a reader, sees her own entry and no
  machines; a user without an entry is refused.
\<close>

theorem ModelInfo_filters_by_access_witness:
  "GetModel ex_catalog ''00000002'' = Inr ex_model
   \<and> ControllerAccess ex_carol \<noteq> ''superuser''
   \<and> (case ModelInfo ex_catalog ex_carol ''00000002'' of
          Inl e \<Rightarrow> False
        | Inr mi \<Rightarrow>
            mi_Users mi = [\<lparr>UserName = ''carol@external'', mui_DisplayName = ''Carol'',
                            mui_Access = ''read''\<rparr>]
            \<and> mi_Machines mi = [])
   \<and> ModelInfo ex_catalog (ex_carol\<lparr>Username := ''dave@external''\<rparr>) ''00000002''
       = Inl (E CodeUnauthorized [])"
proof -
  let ?dave = "ex_carol\<lparr>Username := ''dave@external''\<rparr>"
  let ?mu = "\<lparr>UserName = ''carol@external'', mui_DisplayName = ''Carol'', mui_Access = ''read''\<rparr>"
  have m: "GetModel ex_catalog ''00000002'' = Inr ex_model"
    by (simp add: ex_defs GetModel_def)
  have c: "?mu = findModelUser (Username ex_carol) (mi_Users (ToJujuModelInfo ex_model))"
    by (simp add: ex_defs findModelUser_def ToJujuModelInfo_def WriteModelUserInfo_def)
  have d: "zero_model_user_info
           = findModelUser (Username ?dave) (mi_Users (ToJujuModelInfo ex_model))"
    by (simp add: ex_defs findModelUser_def ToJujuModelInfo_def WriteModelUserInfo_def)
  have s: "ControllerAccess ex_carol \<noteq> ''superuser''" "ControllerAccess ?dave \<noteq> ''superuser''"
    by (simp_all add: ex_defs)
  from ModelInfo_filters_by_access [OF m c s(1)]
  have 1: "case ModelInfo ex_catalog ex_carol ''00000002'' of
          Inl e \<Rightarrow> False
        | Inr mi \<Rightarrow> mi_Users mi = [?mu] \<and> mi_Machines mi = []"
    by auto
  from ModelInfo_filters_by_access [OF m d s(2)]
  have 2: "ModelInfo ex_catalog ?dave ''00000002'' = Inl (E CodeUnauthorized [])"
    by (simp add: zero_model_user_info_def)
  from m s(1) 1 2 show ?thesis by simp
qed

section \<open>Properties of GrantModelAccess and RevokeModelAccess\<close>

lemma GetModel_map:
  fixes f :: "model \<Rightarrow> model"
  assumes "\<And>r. UUID (f r) = UUID r" and "GetModel db mt = Inr m"
  shows "GetModel (db\<lparr>models := map f (models db)\<rparr>) mt = Inr (f m)"
proof -
  have "filter (\<lambda>r. UUID r = Some mt) (map f (models db))
        = map f (filter (\<lambda>r. UUID r = Some mt) (models db))"
    using assms(1) by (simp add: filter_map comp_def)
  with assms(2) show ?thesis
    by (auto simp: GetModel_def split: list.splits)
qed

lemma findAccess_upsertAccess:
  fixes a :: user_model_access
  shows "findAccess (UserID a) (upsertAccess a us) = a"
proof (cases "UserID a \<in> UserID ` set us")
  case True
  then have "\<exists>r. filter (\<lambda>b. UserID b = UserID a)
          (map (\<lambda>b. if UserID b = UserID a then a else b) us) = a # r"
    by (induction us) auto
  with True show ?thesis
    by (auto simp: findAccess_def upsertAccess_def)
next
  case False
  then have "filter (\<lambda>b. UserID b = UserID a) us = []"
    by (simp add: filter_empty_conv) (metis image_eqI)
  with False show ?thesis
    by (simp add: findAccess_def upsertAccess_def)
qed

lemma storedAccess_UpdateUserModelAccess:
  assumes "GetModel db mt = Inr m" and "UpdateUserModelAccess db m uma = Inr db'"
  shows "storedAccess db' mt (u_ID (User uma)) = Access uma"
proof -
  define a where "a = uma\<lparr>UserID := u_ID (User uma)\<rparr>"
  define f :: "model \<Rightarrow> model" where "f = (\<lambda>r. if m_ID r = m_ID m then r\<lparr>Users := upsertAccess a (Users r)\<rparr> else r)"
  have db': "db' = db\<lparr>models := map f (models db)\<rparr>"
    using assms(2) unfolding UpdateUserModelAccess_def f_def a_def by (auto split: if_splits)
  have "\<And>r. UUID (f r) = UUID r" by (simp add: f_def)
  then have "GetModel db' mt = Inr (f m)"
    unfolding db' using assms(1) by (rule GetModel_map)
  moreover have "findAccess (u_ID (User uma)) (Users (f m)) = a"
    using findAccess_upsertAccess [of a "Users m"] by (simp add: f_def a_def)
  ultimately show ?thesis by (simp add: storedAccess_def a_def)
qed

lemma RevokeModelAccess_success:
  assumes "RevokeModelAccess api j u mt ut access = (None, j')"
  obtains m targetUser db' where
    "GetModel (Database j) mt = Inr m"
    "GetUser (Database j) ut = Inr targetUser"
    "UpdateUserModelAccess (Database j) m
       ((findAccess (u_ID targetUser) (Users m))\<lparr>User := targetUser, Access := revokedAccess access\<rparr>)
     = Inr db'"
    "j' = j\<lparr>Database := db',
          log := log j @ [ControllerCall ''RevokeModelAccess'', CatalogWrite ''UpdateUserModelAccess'']\<rparr>"
  using assms
  by (auto simp: RevokeModelAccess_def Let_def record_event_def
           split: sum.splits if_splits option.splits)

lemma GrantModelAccess_success:
  assumes "GrantModelAccess api j u mt ut access = (None, j')"
  obtains m targetUser db' where
    "GetModel (Database j) mt = Inr m"
    "GetUser (Database j) ut = Inr targetUser"
    "UpdateUserModelAccess (Database j) m
       ((findAccess (u_ID targetUser) (Users m))\<lparr>User := targetUser, Access := access\<rparr>)
     = Inr db'"
    "j' = j\<lparr>Database := db',
          log := log j @ [ControllerCall ''GrantModelAccess'', CatalogWrite ''UpdateUserModelAccess'']\<rparr>"
  using assms
  by (auto simp: GrantModelAccess_def Let_def record_event_def
           split: sum.splits if_splits option.splits)

lemma UpdateUserModelAccess_users:
  "UpdateUserModelAccess db m uma = Inr db' \<Longrightarrow> users db' = users db"
  by (auto simp: UpdateUserModelAccess_def split: if_splits)



lemma ex_grant:
  "fst (GrantModelAccess ex_api ex_jimm ex_bob ''00000002'' ''carol@external'' ''write'') = None"
  by (simp add: ex_defs GrantModelAccess_def GetModel_def GetUser_def UserAccess_def
      UpdateUserModelAccess_def Let_def record_event_def)

lemma ex_revoke:
  "fst (RevokeModelAccess ex_api ex_jimm ex_bob ''00000002'' ''alice@external'' ''write'') = None"
  by (simp add: ex_defs RevokeModelAccess_def GetModel_def GetUser_def UserAccess_def
      UpdateUserModelAccess_def Let_def record_event_def)

lemma ex_GetUser_alice: "GetUser (Database ex_jimm) ''alice@external'' = Inr ex_alice"
  by (simp add: ex_defs GetUser_def)

text \<open>
  Claim C1, as amended. Every grant and every revoke that succeeds makes exactly two
  writes, in the same order for both operations: first the call to the backing
  controller, then the update of the local catalog. Revoke does not reverse the order.
\<close>

theorem grant_and_revoke_call_controller_first:
  "(GrantModelAccess api j u mt ut access = (None, j') \<longrightarrow>
      log j' = log j @ [ControllerCall ''GrantModelAccess'',
                        CatalogWrite ''UpdateUserModelAccess''])
   \<and> (RevokeModelAccess api j u mt ut access = (None, j'') \<longrightarrow>
      log j'' = log j @ [ControllerCall ''RevokeModelAccess'',
                         CatalogWrite ''UpdateUserModelAccess''])"
proof (intro conjI impI)
  assume "GrantModelAccess api j u mt ut access = (None, j')"
  then show "log j' = log j @ [ControllerCall ''GrantModelAccess'',
                               CatalogWrite ''UpdateUserModelAccess'']"
    by (rule GrantModelAccess_success) simp
next
  assume "RevokeModelAccess api j u mt ut access = (None, j'')"
  then show "log j'' = log j @ [ControllerCall ''RevokeModelAccess'',
                                CatalogWrite ''UpdateUserModelAccess'']"
    by (rule RevokeModelAccess_success) simp
qed

theorem grant_and_revoke_call_controller_first_witness:
  "fst (GrantModelAccess ex_api ex_jimm ex_bob ''00000002'' ''carol@external'' ''write'') = None
   \<and> log (snd (GrantModelAccess ex_api ex_jimm ex_bob ''00000002'' ''carol@external'' ''write''))
       = [ControllerCall ''GrantModelAccess'', CatalogWrite ''UpdateUserModelAccess'']
   \<and> fst (RevokeModelAccess ex_api ex_jimm ex_bob ''00000002'' ''alice@external'' ''write'') = None
   \<and> log (snd (RevokeModelAccess ex_api ex_jimm ex_bob ''00000002'' ''alice@external'' ''write''))
       = [ControllerCall ''RevokeModelAccess'', CatalogWrite ''UpdateUserModelAccess'']"
proof -
  let ?g = "GrantModelAccess ex_api ex_jimm ex_bob ''00000002'' ''carol@external'' ''write''"
  let ?r = "RevokeModelAccess ex_api ex_jimm ex_bob ''00000002'' ''alice@external'' ''write''"
  have g: "?g = (None, snd ?g)" using ex_grant by (simp add: prod_eq_iff)
  have r: "?r = (None, snd ?r)" using ex_revoke by (simp add: prod_eq_iff)
  have l: "log ex_jimm = []" by (simp add: ex_jimm_def)
  from grant_and_revoke_call_controller_first
         [of ex_api ex_jimm ex_bob "''00000002''" "''carol@external''" "''write''" "snd ?g" "snd ?g"]
       g l
  have 1: "log (snd ?g) = [ControllerCall ''GrantModelAccess'', CatalogWrite ''UpdateUserModelAccess'']"
    by simp
  from grant_and_revoke_call_controller_first
         [of ex_api ex_jimm ex_bob "''00000002''" "''alice@external''" "''write''" "snd ?r" "snd ?r"]
       r l
  have 2: "log (snd ?r) = [ControllerCall ''RevokeModelAccess'', CatalogWrite ''UpdateUserModelAccess'']"
    by simp
  from ex_grant ex_revoke 1 2 show ?thesis by simp
qed

text \<open>
  Claim C1 as stated fails for revoke: in the successful revoke of \<open>write\<close> from \<open>alice\<close> the
  catalog update does not come before the controller call.
\<close>

theorem revoke_catalog_first_counterexample:
  "fst (RevokeModelAccess ex_api ex_jimm ex_bob ''00000002'' ''alice@external'' ''write'') = None
   \<and> \<not> occurs_before (CatalogWrite ''UpdateUserModelAccess'') (ControllerCall ''RevokeModelAccess'')
        (log (snd (RevokeModelAccess ex_api ex_jimm ex_bob ''00000002'' ''alice@external'' ''write'')))"
  by (simp add: ex_defs RevokeModelAccess_def GetModel_def GetUser_def UserAccess_def
      UpdateUserModelAccess_def Let_def record_event_def)

text \<open>
  Claim C3, as amended. A successful revoke stores the level one below the level named
  in the request (\<open>admin\<close> gives \<open>write\<close>, \<open>write\<close> gives \<open>read\<close>, anything else gives
  none), whatever level was stored before. So revoking \<open>admin\<close> and then \<open>write\<close> leaves
  \<open>read\<close>.
\<close>

theorem revoke_stores_level_below_request:
  assumes "GetUser (Database j) ut = Inr targetUser"
    and "RevokeModelAccess api j u mt ut access = (None, j')"
  shows "storedAccess (Database j') mt (u_ID targetUser) = revokedAccess access
       \<and> (access = ''admin'' \<longrightarrow> storedAccess (Database j') mt (u_ID targetUser) = ''write'')
       \<and> (access = ''write'' \<longrightarrow> storedAccess (Database j') mt (u_ID targetUser) = ''read'')
       \<and> (access = ''admin'' \<and> RevokeModelAccess api' j' u' mt ut ''write'' = (None, j'') \<longrightarrow>
             storedAccess (Database j'') mt (u_ID targetUser) = ''read'')"
proof -
  have step: "storedAccess (Database k') mt (u_ID targetUser) = revokedAccess a"
    if "GetUser (Database k) ut = Inr targetUser"
      and "RevokeModelAccess ap k v mt ut a = (None, k')" for ap k v a k'
  proof -
    from that(2) obtain m tu db' where
      m: "GetModel (Database k) mt = Inr m" and tu: "GetUser (Database k) ut = Inr tu"
      and up: "UpdateUserModelAccess (Database k) m
         ((findAccess (u_ID tu) (Users m))\<lparr>User := tu, Access := revokedAccess a\<rparr>) = Inr db'"
      and k': "k' = k\<lparr>Database := db',
          log := log k @ [ControllerCall ''RevokeModelAccess'', CatalogWrite ''UpdateUserModelAccess'']\<rparr>"
      by (rule RevokeModelAccess_success)
    from tu that(1) have "tu = targetUser" by simp
    with storedAccess_UpdateUserModelAccess [OF m up] k' show ?thesis by simp
  qed
  have users: "GetUser (Database j') ut = Inr targetUser"
  proof -
    from assms(2) obtain m tu db' where
      up: "UpdateUserModelAccess (Database j) m
         ((findAccess (u_ID tu) (Users m))\<lparr>User := tu, Access := revokedAccess access\<rparr>) = Inr db'"
      and j': "j' = j\<lparr>Database := db',
          log := log j @ [ControllerCall ''RevokeModelAccess'', CatalogWrite ''UpdateUserModelAccess'']\<rparr>"
      by (rule RevokeModelAccess_success)
    from UpdateUserModelAccess_users [OF up] j' assms(1) show ?thesis
      by (simp add: GetUser_def)
  qed
  have 1: "storedAccess (Database j') mt (u_ID targetUser) = revokedAccess access"
    using step [OF assms] .
  have 2: "storedAccess (Database j'') mt (u_ID targetUser) = ''read''"
    if "RevokeModelAccess api' j' u' mt ut ''write'' = (None, j'')"
    using step [OF users that] by (simp add: revokedAccess_def)
  from 1 2 show ?thesis by (simp add: revokedAccess_def)
qed

theorem revoke_stores_level_below_request_witness:
  "GetUser (Database ex_jimm) ''alice@external'' = Inr ex_alice
   \<and> fst (RevokeModelAccess ex_api ex_jimm ex_bob ''00000002'' ''alice@external'' ''write'') = None
   \<and> storedAccess (Database (snd (RevokeModelAccess ex_api ex_jimm ex_bob ''00000002''
         ''alice@external'' ''write''))) ''00000002'' (u_ID ex_alice) = ''read''"
proof -
  let ?r = "RevokeModelAccess ex_api ex_jimm ex_bob ''00000002'' ''alice@external'' ''write''"
  have r: "?r = (None, snd ?r)" using ex_revoke by (simp add: prod_eq_iff)
  from revoke_stores_level_below_request [OF ex_GetUser_alice r]
  have "storedAccess (Database (snd ?r)) ''00000002'' (u_ID ex_alice) = ''read''"
    by (simp add: revokedAccess_def)
  with ex_GetUser_alice ex_revoke show ?thesis by simp
qed

text \<open>
  Claim C3 as stated fails when the request names a level other than the stored one:
  \<open>alice\<close> holds \<open>admin\<close>, and one successful revoke of \<open>read\<close> leaves her with no access at
  all, three levels down.
\<close>

theorem revoke_one_level_counterexample:
  "storedAccess (Database ex_jimm) ''00000002'' (u_ID ex_alice) = ''admin''
   \<and> fst (RevokeModelAccess ex_api ex_jimm ex_bob ''00000002'' ''alice@external'' ''read'') = None
   \<and> storedAccess (Database (snd (RevokeModelAccess ex_api ex_jimm ex_bob ''00000002''
         ''alice@external'' ''read''))) ''00000002'' (u_ID ex_alice) = []"
  by (simp add: ex_defs RevokeModelAccess_def GetModel_def GetUser_def UserAccess_def
      UpdateUserModelAccess_def Let_def record_event_def storedAccess_def findAccess_def
      upsertAccess_def revokedAccess_def zero_user_model_access_def)

section \<open>Properties of shuffleRegionControllers\<close>

text \<open>The stable sort: a permutation, sorted, and stable on every key.\<close>

lemma mset_insertStable: "mset (insertStable lt x ys) = add_mset x (mset ys)"
  by (induction ys) auto

lemma mset_SliceStable: "mset (SliceStable lt xs) = mset xs"
  by (induction xs) (auto simp: SliceStable_def mset_insertStable)

lemma set_insertStable: "set (insertStable lt x ys) = insert x (set ys)"
  by (induction ys) auto

lemma sorted_insertStable:
  fixes f :: "'a \<Rightarrow> nat"
  assumes "sorted_wrt (\<lambda>a b. f a \<ge> f b) ys"
  shows "sorted_wrt (\<lambda>a b. f a \<ge> f b) (insertStable (\<lambda>a b. f a > f b) x ys)"
  using assms
proof (induction ys)
  case Nil
  then show ?case by simp
next
  case (Cons y ys)
  show ?case
  proof (cases "f y > f x")
    case True
    with Cons show ?thesis
      by (auto simp: set_insertStable)
  next
    case False
    with Cons.prems show ?thesis by auto
  qed
qed

lemma sorted_SliceStable:
  fixes f :: "'a \<Rightarrow> nat"
  shows "sorted_wrt (\<lambda>a b. f a \<ge> f b) (SliceStable (\<lambda>a b. f a > f b) xs)"
proof (induction xs)
  case Nil
  show ?case by (simp add: SliceStable_def)
next
  case (Cons x xs)
  then show ?case
    using sorted_insertStable [of f "SliceStable (\<lambda>a b. f a > f b) xs" x]
    by (simp add: SliceStable_def)
qed



lemma mset_swap_ok: "swap i j xs = Inr ys \<Longrightarrow> mset ys = mset xs"
  by (auto simp: swap_def mset_swap split: if_splits)

lemma mset_applySwaps: "applySwaps ss xs = Inr ys \<Longrightarrow> mset ys = mset xs"
proof (induction ss xs rule: applySwaps.induct)
  case (1 xs)
  then show ?case by simp
next
  case (2 i j ss xs)
  then show ?case
    by (auto split: sum.splits dest: mset_swap_ok)
qed





section \<open>Properties of the placement engine\<close>

lemma shuffleRegionControllers_head:
  assumes "shuffleRegionControllers shuffle cs = Inr (c # rest)"
  shows "c \<in> set cs \<and> (\<forall>e \<in> set cs. Priority e \<le> Priority c)"
proof -
  from assms obtain shuffled where a: "applySwaps (shuffle (length cs)) cs = Inr shuffled"
    and ys: "c # rest = SliceStable (\<lambda>a b. Priority a > Priority b) shuffled"
    by (auto simp: shuffleRegionControllers_def split: sum.splits)
  have "mset (c # rest) = mset cs"
    using mset_applySwaps [OF a] by (simp add: ys mset_SliceStable)
  then have s: "set (c # rest) = set cs" by (rule mset_eq_setD)
  have "sorted_wrt (\<lambda>a b. Priority a \<ge> Priority b) (c # rest)"
    unfolding ys by (rule sorted_SliceStable)
  then have "\<forall>e \<in> set (c # rest). Priority e \<le> Priority c" by auto
  with s show ?thesis by auto
qed

text \<open>
  Claim C2, as amended. The controller that the placement engine selects always has an
  entry among the candidates: for a named region, an entry of that region; without a
  region, an entry of some region of the cloud. The entry selected has the highest
  priority of all candidates. The priority itself is not looked at: an entry of
  priority 0 is a valid target.
\<close>

theorem placement_selects_highest_priority_entry:
  "(b_err b = None \<and> b_cloudRegionID b = 0 \<and> b_cloud b = Some cloud
      \<and> WithCloudRegion shuffle b region = Inr b' \<and> b_err b' = None \<longrightarrow>
      (\<exists>r e. r \<in> set (Regions cloud) \<and> reg_Name r = region \<and> e \<in> set (Controllers r)
           \<and> b_controller b' = Some (Controller e)
           \<and> b_cloudRegionID b' = CloudRegionID e
           \<and> (\<forall>e' \<in> set (Controllers r). Priority e' \<le> Priority e)))
   \<and> (b_cloudRegionID b = 0 \<and> b_cloud b = Some cloud
      \<and> selectCloudRegion shuffle b = Inr (None, b'') \<longrightarrow>
      (\<exists>r e. r \<in> set (Regions cloud) \<and> e \<in> set (Controllers r)
           \<and> b_controller b'' = Some (Controller e)
           \<and> b_cloudRegionID b'' = CloudRegionID e
           \<and> (\<forall>r' \<in> set (Regions cloud). \<forall>e' \<in> set (Controllers r'). Priority e' \<le> Priority e)))"
proof (intro conjI impI)
  assume h: "b_err b = None \<and> b_cloudRegionID b = 0 \<and> b_cloud b = Some cloud
      \<and> WithCloudRegion shuffle b region = Inr b' \<and> b_err b' = None"
  show "\<exists>r e. r \<in> set (Regions cloud) \<and> reg_Name r = region \<and> e \<in> set (Controllers r)
           \<and> b_controller b' = Some (Controller e)
           \<and> b_cloudRegionID b' = CloudRegionID e
           \<and> (\<forall>e' \<in> set (Controllers r). Priority e' \<le> Priority e)"
  proof (cases "filter (\<lambda>r. reg_Name r = region) (Regions cloud)")
    case Nil
    with h show ?thesis
      by (auto simp: WithCloudRegion_def regionNotFound_def split: if_splits)
  next
    case (Cons r rs)
    then have "r \<in> set (filter (\<lambda>r. reg_Name r = region) (Regions cloud))" by simp
    then have r: "r \<in> set (Regions cloud)" "reg_Name r = region" by auto
    from h Cons obtain c rest where
      s: "shuffleRegionControllers shuffle (Controllers r) = Inr (c # rest)"
      and b': "b_controller b' = Some (Controller c)" "b_cloudRegionID b' = CloudRegionID c"
      by (auto simp: WithCloudRegion_def regionNotFound_def Let_def
               split: if_splits sum.splits list.splits)
    from shuffleRegionControllers_head [OF s] r b' show ?thesis by blast
  qed
next
  assume h: "b_cloudRegionID b = 0 \<and> b_cloud b = Some cloud
      \<and> selectCloudRegion shuffle b = Inr (None, b'')"
  let ?all = "concat (map Controllers (Regions cloud))"
  from h obtain c rest where
    s: "shuffleRegionControllers shuffle ?all = Inr (c # rest)"
    and b': "b_controller b'' = Some (Controller c)" "b_cloudRegionID b'' = CloudRegionID c"
    by (auto simp: selectCloudRegion_def Let_def split: if_splits sum.splits list.splits)
  from shuffleRegionControllers_head [OF s]
  have c: "c \<in> set ?all" and mx: "\<forall>e \<in> set ?all. Priority e \<le> Priority c" by auto
  from c obtain r where "r \<in> set (Regions cloud)" "c \<in> set (Controllers r)" by auto
  moreover from mx have "\<forall>r' \<in> set (Regions cloud). \<forall>e' \<in> set (Controllers r'). Priority e' \<le> Priority c"
    by auto
  ultimately show "\<exists>r e. r \<in> set (Regions cloud) \<and> e \<in> set (Controllers r)
           \<and> b_controller b'' = Some (Controller e)
           \<and> b_cloudRegionID b'' = CloudRegionID e
           \<and> (\<forall>r' \<in> set (Regions cloud). \<forall>e' \<in> set (Controllers r'). Priority e' \<le> Priority e)"
    using b' by blast
qed


theorem placement_selects_highest_priority_entry_witness:
  "b_err (WithCloud (Database ex_jimm) newModelBuilder ''dummy'') = None
   \<and> b_cloudRegionID (WithCloud (Database ex_jimm) newModelBuilder ''dummy'') = 0
   \<and> (case WithCloudRegion noShuffle (WithCloud (Database ex_jimm) newModelBuilder ''dummy'') ''r'' of
         Inl p \<Rightarrow> False
       | Inr b' \<Rightarrow> b_err b' = None \<and> b_controller b' = Some ex_controller \<and> b_cloudRegionID b' = 1)
   \<and> (case selectCloudRegion noShuffle (WithCloud (Database ex_jimm) newModelBuilder ''dummy'') of
         Inr (None, b'') \<Rightarrow> b_controller b'' = Some ex_controller \<and> b_cloudRegionID b'' = 1
       | _ \<Rightarrow> False)"
proof -
  let ?b = "WithCloud (Database ex_jimm) newModelBuilder ''dummy''"
  let ?r = "\<lparr>reg_ID = 1, reg_CloudName = ''dummy'', reg_Name = ''r'',
             Controllers = [ex_entry1]\<rparr>"
  let ?cloud = "ex_cloud\<lparr>Regions := [?r]\<rparr>"
  let ?b' = "?b\<lparr>b_cloudRegion := ''r'', b_cloudRegionID := 1, b_controller := Some ex_controller\<rparr>"
  let ?b'' = "?b\<lparr>b_cloudRegionID := 1, b_controller := Some ex_controller\<rparr>"
  have w: "WithCloudRegion noShuffle ?b ''r'' = Inr ?b'" by code_simp
  have e': "b_err ?b' = None" by code_simp
  have s: "selectCloudRegion noShuffle ?b = Inr (None, ?b'')" by code_simp
  have h: "b_err ?b = None" "b_cloudRegionID ?b = 0" "b_cloud ?b = Some ?cloud"
    by code_simp+
  from placement_selects_highest_priority_entry
         [of ?b ?cloud noShuffle "''r''" ?b' ?b''] h w e' s
  have "(\<exists>e. e \<in> set [ex_entry1] \<and> b_controller ?b' = Some (Controller e)
           \<and> b_cloudRegionID ?b' = CloudRegionID e)
      \<and> (\<exists>e. e \<in> set [ex_entry1] \<and> b_controller ?b'' = Some (Controller e)
           \<and> b_cloudRegionID ?b'' = CloudRegionID e)"
    by simp
  then have "b_controller ?b' = Some ex_controller \<and> b_cloudRegionID ?b' = 1
      \<and> b_controller ?b'' = Some ex_controller \<and> b_cloudRegionID ?b'' = 1"
    by simp
  with h(1,2) w e' s show ?thesis by simp
qed

text \<open>
  Claim C2 as stated fails: the only controller has priority 0 for region \<open>r\<close>, as in
  the test environment, and \<open>AddModel\<close> places the new model \<open>m2\<close> on it.
\<close>

theorem placement_priority_zero_counterexample:
  "CloudRegions ex_controller_p0 = [\<lparr>CloudRegionID = 1, Controller = (), Priority = 0\<rparr>]
   \<and> controllers (Database ex_jimm_p0) = [ex_controller_p0]
   \<and> fst (AddModel noShuffle ex_api ex_jimm_p0 ex_bob ex_args) = Inr (Some ex_model_info)
   \<and> map (\<lambda>m. (m_Name m, ControllerID m, m_CloudRegionID m))
        (models (Database (snd (AddModel noShuffle ex_api ex_jimm_p0 ex_bob ex_args))))
      = [(''m'', ctl_ID ex_controller_p0, 1), (''m2'', ctl_ID ex_controller_p0, 1)]"
  by code_simp






section \<open>Properties of JIMM.AddModel\<close>


























section \<open>Properties of JIMM.AddController\<close>

lemma Database_AddCloud_controllers:
  "Database_AddCloud db c = Inr db' \<Longrightarrow> controllers db' = controllers db"
  by (auto simp: Database_AddCloud_def split: if_splits)

lemma Database_AddCloudRegion_controllers:
  "Database_AddCloudRegion db reg = Inr (db', reg') \<Longrightarrow> controllers db' = controllers db"
  by (auto simp: Database_AddCloudRegion_def Let_def split: if_splits list.splits)

lemma Database_UpdateUserCloudAccess_controllers:
  "Database_UpdateUserCloudAccess db uca = Inr db' \<Longrightarrow> controllers db' = controllers db"
  by (auto simp: Database_UpdateUserCloudAccess_def split: if_splits)

lemma addRegions_controllers:
  "addRegions db cloud regs = Inr (db', cloud') \<Longrightarrow> controllers db' = controllers db"
proof (induction db cloud regs rule: addRegions.induct)
  case (1 db cloud)
  then show ?case by simp
next
  case (2 db cloud reg rest)
  then show ?case
    by (auto split: if_splits sum.splits dest: Database_AddCloudRegion_controllers)
qed

lemma addUsers_controllers:
  "addUsers db cloud us = Inr (db', cloud') \<Longrightarrow> controllers db' = controllers db"
proof (induction db cloud us rule: addUsers.induct)
  case (1 db cloud)
  then show ?case by simp
next
  case (2 db cloud uca rest)
  then show ?case
    by (auto simp: Let_def split: if_splits sum.splits
             dest: Database_UpdateUserCloudAccess_controllers)
qed

lemma getOrAddCloud_controllers:
  "getOrAddCloud db c = Inr (db', cloud) \<Longrightarrow> controllers db' = controllers db"
  by (auto simp: getOrAddCloud_def split: if_splits sum.splits
           dest: Database_AddCloud_controllers)

lemma txCloud_keeps:
  assumes "txCloud pr (db, ctl) c = Inr (db', ctl')"
  shows "controllers db' = controllers db \<and> ctl_Name ctl' = ctl_Name ctl
       \<and> ctl_UUID ctl' = ctl_UUID ctl
       \<and> AdminUser ctl' = AdminUser ctl \<and> AdminPassword ctl' = AdminPassword ctl"
proof -
  from assms obtain db1 cloud1 db2 cloud2 cloud3 where
    1: "getOrAddCloud db c = Inr (db1, cloud1)"
    and 2: "addRegions db1 cloud1 (Regions c) = Inr (db2, cloud2)"
    and 3: "addUsers db2 cloud2 (cloud_Users c) = Inr (db', cloud3)"
    and 4: "ctl' = ctl\<lparr>CloudRegions := CloudRegions ctl
                                    @ regionPriorities pr ctl cloud3 (Regions c)\<rparr>"
    by (auto simp: txCloud_def split: sum.splits)
  from getOrAddCloud_controllers [OF 1] addRegions_controllers [OF 2]
    addUsers_controllers [OF 3] 4
  show ?thesis by simp
qed

lemma txClouds_keeps:
  "txClouds pr (db, ctl) cs = Inr (db', ctl') \<Longrightarrow>
     controllers db' = controllers db \<and> ctl_Name ctl' = ctl_Name ctl
       \<and> ctl_UUID ctl' = ctl_UUID ctl
       \<and> AdminUser ctl' = AdminUser ctl \<and> AdminPassword ctl' = AdminPassword ctl"
proof (induction cs arbitrary: db ctl)
  case Nil
  then show ?case by simp
next
  case (Cons c cs)
  from Cons.prems obtain db1 ctl1 where 1: "txCloud pr (db, ctl) c = Inr (db1, ctl1)"
    and 2: "txClouds pr (db1, ctl1) cs = Inr (db', ctl')"
    by (auto split: sum.splits)
  from txCloud_keeps [OF 1] Cons.IH [OF 2] show ?case by simp
qed

lemma txBody_row:
  assumes "txBody pr credentialsStored db ctl dbClouds = Inr (db', ctl')"
  shows "controllers db' = controllers db @ [ctl'] \<and> ctl_Name ctl' = ctl_Name ctl
       \<and> (credentialsStored \<longrightarrow> AdminUser ctl' = [] \<and> AdminPassword ctl' = [])"
proof -
  from assms obtain db1 ctl1 where 1: "txClouds pr (db, ctl) dbClouds = Inr (db1, ctl1)"
    by (auto simp: txBody_def split: sum.splits)
  define ctl2 where "ctl2 = (if credentialsStored
                      then ctl1\<lparr>AdminUser := [], AdminPassword := []\<rparr> else ctl1)"
  from assms 1 have 2: "Database_AddController db1 ctl2 = Inr (db', ctl')"
    by (auto simp: txBody_def Let_def ctl2_def split: sum.splits if_splits)
  then have "db' = db1\<lparr>controllers := controllers db1 @ [ctl']\<rparr>"
    and "ctl' = ctl2\<lparr>ctl_ID := nextControllerID db1\<rparr>"
    by (auto simp: Database_AddController_def Let_def split: if_splits)
  with txClouds_keeps [OF 1] show ?thesis by (auto simp: ctl2_def)
qed


lemma storeControllerCredentials_cases:
  assumes "storeControllerCredentials env j ctl = Inr (stored, j1)"
  shows "Database j1 = Database j
       \<and> (case CredentialStore j of
             None \<Rightarrow> \<not> stored \<and> j1 = j
           | Some store \<Rightarrow>
               stored \<and> CredentialStore j1
                 = Some (PutControllerCredentials store (ctl_Name ctl) (AdminUser ctl)
                           (AdminPassword ctl)))"
  using assms
  by (auto simp: storeControllerCredentials_def record_event_def split: option.splits)

lemma Get_Put_ControllerCredentials:
  "GetControllerCredentials (PutControllerCredentials store name username password) name
   = Some (username, password)"
  by (simp add: GetControllerCredentials_def PutControllerCredentials_def)

lemma AddController_success:
  assumes "AddController pr env j u ctl = (None, j')"
  obtains ms ct cls stored j1 db' ctl' where
    "storeControllerCredentials env j
       (ctl\<lparr>ctl_CloudName := ct, ctl_CloudRegion := ms_CloudRegion ms\<rparr>) = Inr (stored, j1)"
    "txBody pr stored (Database j1)
       (ctl\<lparr>ctl_CloudName := ct, ctl_CloudRegion := ms_CloudRegion ms\<rparr>)
       (map (importedCloud env ms) cls) = Inr (db', ctl')"
    "Database j' = db'" "CredentialStore j' = CredentialStore j1"
  using assms
  by (auto simp: AddController_def Let_def
        split: sum.splits if_splits option.splits prod.splits)

lemma AddController_failure:
  assumes "AddController pr env j u ctl = (Some e, j')"
  shows "Database j' = Database j"
  using assms
  by (auto simp: AddController_def Let_def
        split: sum.splits if_splits option.splits prod.splits
        dest: storeControllerCredentials_cases)

text \<open>
  Claim C9. With a secret store configured, a successful \<open>AddController\<close> leaves the
  controller's admin user and password in the secret store under the controller's name,
  and the row it appends to the controllers of the catalog has an empty admin user and
  an empty admin password. Whether it succeeds or fails, every controller row of the
  catalog that was not there before has empty admin credentials: the password does not
  reach the catalog.
\<close>

theorem AddController_keeps_credentials_out_of_catalog:
  assumes "CredentialStore j = Some store"
    and "AddController pr env j u ctl = (res, j')"
  shows "(res = None \<longrightarrow>
            (\<exists>row. controllers (Database j') = controllers (Database j) @ [row]
                \<and> ctl_Name row = ctl_Name ctl
                \<and> AdminUser row = [] \<and> AdminPassword row = [])
          \<and> (\<exists>store'. CredentialStore j' = Some store'
                \<and> GetControllerCredentials store' (ctl_Name ctl)
                    = Some (AdminUser ctl, AdminPassword ctl)))
       \<and> (\<forall>row \<in> set (controllers (Database j')).
             row \<in> set (controllers (Database j))
             \<or> (AdminUser row = [] \<and> AdminPassword row = []))"
proof (cases res)
  case (Some e)
  with AddController_failure assms(2) have "Database j' = Database j" by blast
  with Some show ?thesis by simp
next
  case None
  with assms(2) obtain ms ct cls stored j1 db' ctl' where
    s: "storeControllerCredentials env j
              (ctl\<lparr>ctl_CloudName := ct, ctl_CloudRegion := ms_CloudRegion ms\<rparr>) = Inr (stored, j1)"
    and t: "txBody pr stored (Database j1)
              (ctl\<lparr>ctl_CloudName := ct, ctl_CloudRegion := ms_CloudRegion ms\<rparr>)
              (map (importedCloud env ms) cls) = Inr (db', ctl')"
    and j': "Database j' = db'" "CredentialStore j' = CredentialStore j1"
    by (auto elim: AddController_success)
  from storeControllerCredentials_cases [OF s] assms(1)
  have st: "stored" "Database j1 = Database j"
    "CredentialStore j1 = Some (PutControllerCredentials store (ctl_Name ctl) (AdminUser ctl)
                         (AdminPassword ctl))"
    by simp_all
  from txBody_row [OF t] st
  have row: "controllers db' = controllers (Database j) @ [ctl']" "ctl_Name ctl' = ctl_Name ctl"
    "AdminUser ctl' = []" "AdminPassword ctl' = []"
    by simp_all
  from row j' st Get_Put_ControllerCredentials show ?thesis by auto
qed

text \<open>
  The theorem at the concrete process: \<open>c3\<close> is added, its row carries no credentials,
  and the secret store answers with \<open>admin\<close> and \<open>secret\<close>.
\<close>

theorem AddController_keeps_credentials_out_of_catalog_witness:
  "CredentialStore ex_jimm_store = Some []
   \<and> fst (AddController ex_priorities ex_env ex_jimm_store ex_bob ex_new_controller) = None
   \<and> map (\<lambda>row. (ctl_Name row, AdminUser row, AdminPassword row))
        (controllers (Database
           (snd (AddController ex_priorities ex_env ex_jimm_store ex_bob ex_new_controller))))
      = [(''c1'', [], []), (''c3'', [], [])]
   \<and> (\<exists>store'. CredentialStore
           (snd (AddController ex_priorities ex_env ex_jimm_store ex_bob ex_new_controller))
           = Some store'
         \<and> GetControllerCredentials store' ''c3'' = Some (''admin'', ''secret''))"
proof -
  let ?r = "AddController ex_priorities ex_env ex_jimm_store ex_bob ex_new_controller"
  have c: "CredentialStore ex_jimm_store = Some []"
    by (simp add: ex_jimm_store_def)
  have f: "fst ?r = None" by code_simp
  have p: "?r = (fst ?r, snd ?r)" by simp
  have m: "map (\<lambda>row. (ctl_Name row, AdminUser row, AdminPassword row))
        (controllers (Database (snd ?r))) = [(''c1'', [], []), (''c3'', [], [])]"
    by code_simp
  from AddController_keeps_credentials_out_of_catalog [OF c p] f
  have "\<exists>store'. CredentialStore (snd ?r) = Some store'
         \<and> GetControllerCredentials store' (ctl_Name ex_new_controller)
             = Some (AdminUser ex_new_controller, AdminPassword ex_new_controller)"
    by blast
  then have "\<exists>store'. CredentialStore (snd ?r) = Some store'
         \<and> GetControllerCredentials store' ''c3'' = Some (''admin'', ''secret'')"
    by (simp add: ex_new_controller_def)
  with c f m show ?thesis by (intro conjI)
qed

section \<open>Properties of \<open>RemoveGroup\<close>\<close>

text \<open>
  One round of the loop of \<open>removeTuples\<close> deletes the page it has read; the loop stops
  only after a read from the start of the store that returns no continuation token, so a
  run that returns has deleted every tuple matching the pattern. On an available store
  whose tuples are complete the loop returns.
\<close>

lemma keysToTuples_roundtrip:
  assumes "keysToTuples ks = Inr ts" "\<forall>k \<in> set (map createTupleKey ts). complete_key k"
  shows "map createTupleKey ts = ks"
  using assms
proof (induction ks arbitrary: ts)
  case Nil
  then show ?case by simp
next
  case (Cons k ks)
  from Cons.prems(1) obtain u ts' where u: "tk_User k = Some u"
    and ts': "keysToTuples ks = Inr ts'"
    and ts: "ts = \<lparr>Object = Some u,
                   Relation = (case tk_Relation k of None \<Rightarrow> [] | Some r \<Rightarrow> r),
                   Target = tk_Object k\<rparr> # ts'"
    by (auto split: option.splits sum.splits)
  from Cons.prems(2) ts have c: "complete_key (createTupleKey \<lparr>Object = Some u,
                   Relation = (case tk_Relation k of None \<Rightarrow> [] | Some r \<Rightarrow> r),
                   Target = tk_Object k\<rparr>)"
    and rest: "\<forall>k \<in> set (map createTupleKey ts'). complete_key k" by simp_all
  from c u have "createTupleKey \<lparr>Object = Some u,
                   Relation = (case tk_Relation k of None \<Rightarrow> [] | Some r \<Rightarrow> r),
                   Target = tk_Object k\<rparr> = k"
    by (cases "tk_Relation k") (auto simp: createTupleKey_def complete_key_def)
  with Cons.IH [OF ts' rest] ts show ?case by simp
qed

lemma removeLoop_round:
  assumes r: "ReadRelatedObjects s (Some tuple) 50 token = Inr resp"
    and w: "(if length (Tuples resp) > 0 then RemoveRelation s (Tuples resp) else Inr s) = Inr s'"
  shows "s' = s\<lparr>tuple_keys := filter (\<lambda>t. t \<notin> set (take 50 (drop token
               (filter (key_matches (createTupleKey tuple)) (tuple_keys s))))) (tuple_keys s)\<rparr>"
    and "PaginationToken resp
         = (if token + 50 < length (filter (key_matches (createTupleKey tuple)) (tuple_keys s))
            then token + 50 else 0)"
proof -
  let ?ms = "filter (key_matches (createTupleKey tuple)) (tuple_keys s)"
  let ?page = "take 50 (drop token ?ms)"
  from r have page: "keysToTuples ?page = Inr (Tuples resp)"
    and tok: "PaginationToken resp = (if token + 50 < length ?ms then token + 50 else 0)"
    by (auto simp: ReadRelatedObjects_def getRelatedObjects_def api_Read_def Let_def
             split: if_splits sum.splits)
  show "PaginationToken resp = (if token + 50 < length ?ms then token + 50 else 0)" by (rule tok)
  show "s' = s\<lparr>tuple_keys := filter (\<lambda>t. t \<notin> set ?page) (tuple_keys s)\<rparr>"
  proof (cases "Tuples resp = []")
    case True
    with page have "?page = []" by (cases ?page) (auto split: option.splits sum.splits)
    with True w show ?thesis by simp
  next
    case False
    with w have rm: "RemoveRelation s (Tuples resp) = Inr s'" by simp
    then have valid: "\<forall>k \<in> set (map createTupleKey (Tuples resp)). complete_key k"
      and s': "s' = s\<lparr>tuple_keys := filter (\<lambda>t. t \<notin> set (map createTupleKey (Tuples resp))) (tuple_keys s)\<rparr>"
      by (auto simp: RemoveRelation_def removeRelation_def api_Write_deletes_def
                     filter_empty_conv split: if_splits)
    from keysToTuples_roundtrip [OF page valid] s' show ?thesis by simp
  qed
qed

lemma removeLoop_result:
  "removeLoop s tuple token = Inr s' \<Longrightarrow>
     s' = s\<lparr>tuple_keys := filter (\<lambda>t. \<not> key_matches (createTupleKey tuple) t) (tuple_keys s)\<rparr>"
proof (induction s tuple token rule: removeLoop.induct)
  case (1 s tuple token)
  let ?p = "key_matches (createTupleKey tuple)"
  let ?ms = "filter ?p (tuple_keys s)"
  let ?page = "take 50 (drop token ?ms)"
  note unfold = removeLoop.simps [of s tuple token]
  from "1.prems" obtain resp where r: "ReadRelatedObjects s (Some tuple) 50 token = Inr resp"
    unfolding unfold by (auto split: sum.splits)
  from "1.prems" r obtain s1 where
    w: "(if length (Tuples resp) > 0 then RemoveRelation s (Tuples resp) else Inr s) = Inr s1"
    unfolding unfold by (auto split: sum.splits)
  note s1 = removeLoop_round(1) [OF r w] and tok = removeLoop_round(2) [OF r w]
  have sub: "\<forall>t \<in> set ?page. ?p t"
  proof
    fix t assume "t \<in> set ?page"
    then have "t \<in> set ?ms" by (meson in_set_dropD in_set_takeD)
    then show "?p t" by simp
  qed
  show ?case
  proof (cases "token \<noteq> PaginationToken resp")
    case True
    with "1.prems" r w have "removeLoop s1 tuple (PaginationToken resp) = Inr s'"
      unfolding unfold by simp
    from "1.IH" [OF r w True this]
    have "s' = s1\<lparr>tuple_keys := filter (\<lambda>t. \<not> ?p t) (tuple_keys s1)\<rparr>" .
    moreover have "filter (\<lambda>t. \<not> ?p t) (filter (\<lambda>t. t \<notin> set ?page) (tuple_keys s))
                   = filter (\<lambda>t. \<not> ?p t) (tuple_keys s)"
      unfolding filter_filter using sub by (intro filter_cong [OF refl]) blast
    ultimately show ?thesis by (simp add: s1)
  next
    case False
    with "1.prems" r w have s': "s' = s1"
      unfolding unfold by simp
    from False tok have "token = 0" "length ?ms \<le> 50" by (auto split: if_splits)
    then have "?page = ?ms" by simp
    then have "filter (\<lambda>t. t \<notin> set ?page) (tuple_keys s) = filter (\<lambda>t. \<not> ?p t) (tuple_keys s)"
      by (intro filter_cong [OF refl]) simp
    with s' s1 show ?thesis by simp
  qed
qed


lemma removeTuples_result:
  "removeTuples s tuple = Inr s' \<Longrightarrow>
     s' = s\<lparr>tuple_keys := filter (\<lambda>t. \<not> key_matches (createTupleKey tuple) t) (tuple_keys s)\<rparr>"
  unfolding removeTuples_def by (rule removeLoop_result)

lemma keysToTuples_complete:
  "\<forall>k \<in> set ks. complete_key k \<Longrightarrow>
     \<exists>ts. keysToTuples ks = Inr ts \<and> map createTupleKey ts = ks"
proof (induction ks)
  case Nil
  show ?case by simp
next
  case (Cons k ks)
  then obtain ts where ts: "keysToTuples ks = Inr ts" "map createTupleKey ts = ks" by auto
  from Cons.prems obtain u r where "tk_User k = Some u" "tk_Relation k = Some r" "r \<noteq> []"
    by (auto simp: complete_key_def)
  with ts show ?case by (auto simp: createTupleKey_def)
qed

lemma removeLoop_returns:
  "available s \<Longrightarrow> \<forall>k \<in> set (tuple_keys s). complete_key k \<Longrightarrow>
     \<exists>s'. removeLoop s tuple token = Inr s'"
proof (induction s tuple token rule: removeLoop.induct)
  case (1 s tuple token)
  let ?p = "key_matches (createTupleKey tuple)"
  let ?ms = "filter ?p (tuple_keys s)"
  let ?page = "take 50 (drop token ?ms)"
  let ?tok = "if token + 50 < length ?ms then token + 50 else 0"
  have "\<forall>k \<in> set ?page. complete_key k"
  proof
    fix k assume "k \<in> set ?page"
    then have "k \<in> set ?ms" by (meson in_set_dropD in_set_takeD)
    with "1.prems"(2) show "complete_key k" by simp
  qed
  from keysToTuples_complete [OF this] obtain ts where
    ts: "keysToTuples ?page = Inr ts" "map createTupleKey ts = ?page" by blast
  define resp where "resp = \<lparr>Tuples = ts, PaginationToken = ?tok\<rparr>"
  have r: "ReadRelatedObjects s (Some tuple) 50 token = Inr resp"
    using "1.prems"(1) ts(1)
    by (simp add: ReadRelatedObjects_def getRelatedObjects_def api_Read_def Let_def resp_def)
  have c: "\<forall>k \<in> set (map createTupleKey ts). complete_key k"
    unfolding ts(2)
  proof
    fix k assume "k \<in> set ?page"
    then have "k \<in> set ?ms" by (meson in_set_dropD in_set_takeD)
    with "1.prems"(2) show "complete_key k" by simp
  qed
  then have "filter (\<lambda>k. \<not> complete_key k) (map createTupleKey ts) = []"
    by (simp only: filter_empty_conv) blast
  then have "\<exists>s1. RemoveRelation s ts = Inr s1"
    using "1.prems"(1)
    by (simp add: RemoveRelation_def removeRelation_def api_Write_deletes_def)
  then have "\<exists>s1. (if length (Tuples resp) > 0 then RemoveRelation s (Tuples resp) else Inr s)
                  = Inr s1"
    by (simp add: resp_def)
  then obtain s1 where
    w: "(if length (Tuples resp) > 0 then RemoveRelation s (Tuples resp) else Inr s) = Inr s1"
    by blast
  from removeLoop_round(1) [OF r w]
  have s1: "available s1" "\<forall>k \<in> set (tuple_keys s1). complete_key k"
    using "1.prems" by simp_all
  show ?case
  proof (cases "token \<noteq> PaginationToken resp")
    case True
    from "1.IH" [OF r w True s1] obtain s' where
      "removeLoop s1 tuple (PaginationToken resp) = Inr s'" by blast
    with r w True show ?thesis
      by (subst removeLoop.simps) simp
  next
    case False
    with r w show ?thesis by (subst removeLoop.simps) simp
  qed
qed

lemma removeKinds_result:
  assumes "removeKinds s g kinds = Inr s'"
  shows "s' = s\<lparr>tuple_keys :=
            filter (\<lambda>t. \<not> (tk_User t = Some (FromTagWithRelation GroupTagKind g MemberRelation)
                          \<and> Kind (tk_Object t) \<in> set kinds))
              (tuple_keys s)\<rparr>"
  using assms
proof (induction kinds arbitrary: s)
  case Nil
  then show ?case by simp
next
  case (Cons kind rest)
  let ?G = "FromTagWithRelation GroupTagKind g MemberRelation"
  let ?kt = "\<lparr>Kind = kind, tag_ID = [], tag_Relation = []\<rparr>"
  let ?pat = "\<lparr>Object = Some ?G, Relation = [], Target = ?kt\<rparr>"
  from Cons.prems obtain s1 where
    1: "removeTuples s ?pat = Inr s1" and 2: "removeKinds s1 g rest = Inr s'"
    by (auto simp: BlankKindTag_def split: sum.splits if_splits)
  have m: "key_matches (createTupleKey ?pat) t
           = (tk_User t = Some ?G \<and> Kind (tk_Object t) = kind)" for t
    by (auto simp: key_matches_def createTupleKey_def)
  from removeTuples_result [OF 1]
  have s1: "s1 = s\<lparr>tuple_keys := filter (\<lambda>t. \<not> (tk_User t = Some ?G \<and> Kind (tk_Object t) = kind))
                                     (tuple_keys s)\<rparr>"
    by (simp only: m)
  have "filter (\<lambda>t. \<not> (tk_User t = Some ?G \<and> Kind (tk_Object t) \<in> set rest))
          (filter (\<lambda>t. \<not> (tk_User t = Some ?G \<and> Kind (tk_Object t) = kind)) (tuple_keys s))
        = filter (\<lambda>t. \<not> (tk_User t = Some ?G \<and> Kind (tk_Object t) \<in> set (kind # rest)))
            (tuple_keys s)"
    unfolding filter_filter by (intro filter_cong [OF refl]) auto
  with Cons.IH [OF 2] s1 show ?case by simp
qed

lemma removeTuples_returns:
  "available s \<Longrightarrow> \<forall>k \<in> set (tuple_keys s). complete_key k \<Longrightarrow>
     \<exists>s'. removeTuples s tuple = Inr s'"
  unfolding removeTuples_def by (rule removeLoop_returns)

lemma removeKinds_returns:
  assumes "available s" "\<forall>k \<in> set (tuple_keys s). complete_key k"
    "set kinds \<subseteq> set resourceTypes"
  shows "\<exists>s'. removeKinds s g kinds = Inr s'"
  using assms
proof (induction kinds arbitrary: s)
  case Nil
  show ?case by simp
next
  case (Cons kind rest)
  let ?pat = "\<lparr>Object = Some (FromTagWithRelation GroupTagKind g MemberRelation),
                Relation = [], Target = \<lparr>Kind = kind, tag_ID = [], tag_Relation = []\<rparr>\<rparr>"
  from Cons.prems(3) have b: "BlankKindTag kind
                              = Inr \<lparr>Kind = kind, tag_ID = [], tag_Relation = []\<rparr>"
    by (auto simp: BlankKindTag_def resourceTypes_def)
  from removeTuples_returns [OF Cons.prems(1,2)] obtain s1 where
    1: "removeTuples s ?pat = Inr s1" by blast
  from removeTuples_result [OF 1] Cons.prems(1,2)
  have "available s1" "\<forall>k \<in> set (tuple_keys s1). complete_key k" by simp_all
  from Cons.IH [OF this] Cons.prems(3) obtain s' where "removeKinds s1 g rest = Inr s'"
    by auto
  with b 1 show ?case by simp
qed

lemma RemoveGroup_result:
  assumes "RemoveGroup s g = Inr s'" "g \<noteq> []"
  shows "s' = s\<lparr>tuple_keys :=
            filter (\<lambda>t. \<not> (tk_Relation t = Some MemberRelation
                             \<and> tk_Object t = FromTag GroupTagKind g)
                      \<and> \<not> (tk_User t = Some (FromTagWithRelation GroupTagKind g MemberRelation)
                             \<and> Kind (tk_Object t) \<in> set resourceTypes))
              (tuple_keys s)\<rparr>"
proof -
  let ?pat = "\<lparr>Object = None, Relation = MemberRelation, Target = FromTag GroupTagKind g\<rparr>"
  from assms(1) obtain s1 where 1: "removeTuples s ?pat = Inr s1"
    and 2: "removeKinds s1 g resourceTypes = Inr s'"
    by (auto simp: RemoveGroup_def split: sum.splits)
  have m: "key_matches (createTupleKey ?pat) t
           = (tk_Relation t = Some MemberRelation \<and> tk_Object t = FromTag GroupTagKind g)" for t
    using assms(2)
    by (auto simp: key_matches_def createTupleKey_def FromTag_def MemberRelation_def)
  from removeTuples_result [OF 1]
  have s1: "s1 = s\<lparr>tuple_keys := filter (\<lambda>t. \<not> (tk_Relation t = Some MemberRelation
                                               \<and> tk_Object t = FromTag GroupTagKind g))
                                     (tuple_keys s)\<rparr>"
    by (simp only: m)
  from removeKinds_result [OF 2] s1 show ?thesis
    by (simp add: conj_commute)
qed

lemma RemoveGroup_returns:
  assumes "available s" "\<forall>k \<in> set (tuple_keys s). complete_key k"
  shows "\<exists>s'. RemoveGroup s g = Inr s'"
proof -
  let ?pat = "\<lparr>Object = None, Relation = MemberRelation, Target = FromTag GroupTagKind g\<rparr>"
  from removeTuples_returns [OF assms] obtain s1 where 1: "removeTuples s ?pat = Inr s1" by blast
  from removeTuples_result [OF 1] assms
  have "available s1" "\<forall>k \<in> set (tuple_keys s1). complete_key k" by simp_all
  from removeKinds_returns [OF this subset_refl] obtain s' where
    "removeKinds s1 g resourceTypes = Inr s'" by blast
  with 1 show ?thesis by (simp add: RemoveGroup_def)
qed

text \<open>
  Claim C5. Deleting a group removes every authorization tuple that mentions the group as
  object or target, across every resource kind, by paginated reads of page size 50
  repeated until no matching tuple remains; afterwards no read of the store returns a tuple
  referencing the group.

  \<open>RemoveGroup\<close> deletes the membership tuples of the group and, for each kind in
  \<open>resourceTypes\<close>, the tuples the group's members hold on a resource of that kind
  (\<open>RemoveGroup_result\<close>). \<open>resourceTypes\<close> is documented as the list of all resource
  kinds, but the cloud kind is not in it: on the store below, where the members of group
  \<open>1\<close> administer the controller \<open>00000001\<close> and the cloud \<open>dummy\<close>, the tuple on the cloud
  is still in the store after the group is removed.
\<close>

theorem RemoveGroup_leaves_cloud_tuple:
  "RemoveGroup ex_openfga ''1'' = Inr (ex_openfga\<lparr>tuple_keys := [ex_tuple_cloud]\<rparr>)"
  by code_simp

section \<open>Properties of \<open>RenameGroup\<close>\<close>

lemma Database_GetGroup_Inr:
  assumes "Database_GetGroup gs name = Inr g"
  shows "g \<in> set gs" "ge_Name g = name"
proof -
  from assms obtain rest where f: "filter (\<lambda>g. ge_Name g = name) gs = g # rest"
    by (auto simp: Database_GetGroup_def split: list.splits)
  then have "g \<in> set (filter (\<lambda>g. ge_Name g = name) gs)" by simp
  then show "g \<in> set gs" "ge_Name g = name" by simp_all
qed

lemma Database_UpdateGroup_Inr:
  assumes "Database_UpdateGroup gs g = Inr gs'"
  shows "gs' = map (\<lambda>g'. if ge_ID g' = ge_ID g then g else g') gs"
    and "\<forall>g' \<in> set gs. ge_ID g' \<noteq> ge_ID g \<longrightarrow> ge_Name g' \<noteq> ge_Name g"
  using assms
  by (auto simp: Database_UpdateGroup_def filter_empty_conv split: if_splits)

lemma RenameGroup_Inr:
  assumes "RenameGroup j usr oldName newName = Inr j'"
  obtains grp where "JimmAdmin usr"
    "Database_GetGroup (Groups j) oldName = Inr grp"
    "Database_UpdateGroup (Groups j) (grp\<lparr>ge_Name := newName\<rparr>) = Inr (Groups j')"
    "j' = j\<lparr>Groups := Groups j'\<rparr>"
  using assms
  by (auto simp: RenameGroup_def split: if_splits sum.splits)

lemma filter_renamed:
  fixes g :: group_entry
  assumes "\<forall>g' \<in> set gs. ge_ID g' \<noteq> ge_ID g \<longrightarrow> ge_Name g' \<noteq> ge_Name g"
  shows "filter (\<lambda>x. ge_Name x = ge_Name g) (map (\<lambda>g'. if ge_ID g' = ge_ID g then g else g') gs)
         = map (\<lambda>_. g) (filter (\<lambda>g'. ge_ID g' = ge_ID g) gs)"
  using assms by (induction gs) auto

lemma Database_GetGroup_renamed:
  fixes g :: group_entry
  assumes "\<forall>g' \<in> set gs. ge_ID g' \<noteq> ge_ID g \<longrightarrow> ge_Name g' \<noteq> ge_Name g"
    and "g0 \<in> set gs" "ge_ID g0 = ge_ID g"
  shows "Database_GetGroup (map (\<lambda>g'. if ge_ID g' = ge_ID g then g else g') gs) (ge_Name g)
         = Inr g"
proof -
  from assms(2,3) have "g0 \<in> set (filter (\<lambda>g'. ge_ID g' = ge_ID g) gs)" by simp
  then obtain x xs where "filter (\<lambda>g'. ge_ID g' = ge_ID g) gs = x # xs"
    by (cases "filter (\<lambda>g'. ge_ID g' = ge_ID g) gs") auto
  with filter_renamed [OF assms(1)] show ?thesis
    by (simp add: Database_GetGroup_def)
qed

text \<open>
  A rename by an administrator of a group that exists to a name that no group has
  succeeds.
\<close>

lemma RenameGroup_returns:
  assumes "JimmAdmin usr" "Database_GetGroup (Groups j) oldName = Inr grp"
    and "\<forall>g \<in> set (Groups j). ge_Name g \<noteq> newName"
  shows "\<exists>j'. RenameGroup j usr oldName newName = Inr j'"
proof -
  from assms(3) have "filter (\<lambda>g'. ge_Name g' = newName \<and> ge_ID g' \<noteq> ge_ID grp) (Groups j) = []"
    by (simp add: filter_empty_conv)
  with assms(1,2) show ?thesis
    by (simp add: RenameGroup_def Database_UpdateGroup_def)
qed

text \<open>
  Claim C6. Renaming a group changes only its name and preserves its numeric id, so no
  authorization tuple is rewritten and every (user, resource, relation) access that was
  allowed before the rename is allowed after it.

  After a successful \<open>RenameGroup\<close> the group table is the old one with the new name in the
  rows of the renamed group, every id is where it was, the authorization store is the
  same, the new name resolves to the tag the old name resolved to, and every check has
  the answer it had before.
\<close>

theorem RenameGroup_preserves_authorization:
  assumes "RenameGroup j usr oldName newName = Inr j'"
  shows "(\<exists>grp. Database_GetGroup (Groups j) oldName = Inr grp
            \<and> Groups j' = map (\<lambda>g. if ge_ID g = ge_ID grp then g\<lparr>ge_Name := newName\<rparr> else g)
                            (Groups j))
       \<and> map ge_ID (Groups j') = map ge_ID (Groups j)
       \<and> OpenFGAClient j' = OpenFGAClient j
       \<and> ResolveTag_group (Groups j') newName rel = ResolveTag_group (Groups j) oldName rel
       \<and> (\<forall>t. CheckRelation (OpenFGAClient j') t = CheckRelation (OpenFGAClient j) t)"
proof -
  from assms obtain grp where get: "Database_GetGroup (Groups j) oldName = Inr grp"
    and upd: "Database_UpdateGroup (Groups j) (grp\<lparr>ge_Name := newName\<rparr>) = Inr (Groups j')"
    and j': "j' = j\<lparr>Groups := Groups j'\<rparr>"
    by (rule RenameGroup_Inr)
  let ?g = "grp\<lparr>ge_Name := newName\<rparr>"
  note u = Database_UpdateGroup_Inr [OF upd]
  have rows: "Groups j' = map (\<lambda>g. if ge_ID g = ge_ID grp then g\<lparr>ge_Name := newName\<rparr> else g)
                            (Groups j)"
    unfolding u(1) by (rule map_cong [OF refl]) simp
  have ids: "map ge_ID (Groups j') = map ge_ID (Groups j)"
    unfolding rows map_map by (rule map_cong [OF refl]) simp
  have store: "OpenFGAClient j' = OpenFGAClient j"
    by (subst j') simp
  have mem: "grp \<in> set (Groups j)" using get by (rule Database_GetGroup_Inr(1))
  have same: "ge_ID grp = ge_ID ?g" by simp
  have "Database_GetGroup (map (\<lambda>g'. if ge_ID g' = ge_ID ?g then ?g else g') (Groups j))
          (ge_Name ?g) = Inr ?g"
    using u(2) mem same by (rule Database_GetGroup_renamed)
  then have new: "Database_GetGroup (Groups j') newName = Inr ?g"
    by (simp only: u(1) [symmetric]) simp
  have resolve:
    "ResolveTag_group (Groups j') newName rel = ResolveTag_group (Groups j) oldName rel"
    unfolding ResolveTag_group_def group_ResourceTag_def new get by simp
  from get rows have "\<exists>grp. Database_GetGroup (Groups j) oldName = Inr grp
            \<and> Groups j' = map (\<lambda>g. if ge_ID g = ge_ID grp then g\<lparr>ge_Name := newName\<rparr> else g)
                            (Groups j)"
    by blast
  moreover have "\<forall>t. CheckRelation (OpenFGAClient j') t = CheckRelation (OpenFGAClient j) t"
    by (simp only: store) simp
  ultimately show ?thesis using ids store resolve by (intro conjI)
qed

text \<open>
  The theorem on the scenario of \<open>TestRenameGroup\<close>: the group \<open>test-group\<close> is renamed
  to \<open>test-new-group\<close>; it is still group \<open>1\<close>, and \<open>alice\<close> may still write to the model
  through her membership.
\<close>

theorem RenameGroup_preserves_authorization_witness:
  "(\<exists>j'. RenameGroup ex_groups ex_admin ''test-group'' ''test-new-group'' = Inr j'
         \<and> Groups j' = [\<lparr>ge_ID = 1, ge_Name = ''test-new-group''\<rparr>]
         \<and> ResolveTag_group (Groups j') ''test-new-group'' MemberRelation
             = Inr (FromTagWithRelation GroupTagKind ''1'' MemberRelation)
         \<and> CheckRelation (OpenFGAClient j')
              \<lparr>Object = Some (FromTag UserTagKind ''alice@external''), Relation = ''writer'',
               Target = FromTag ModelTagKind ''00000002''\<rparr> = Inr True)"
proof -
  let ?j' = "ex_groups\<lparr>Groups := [\<lparr>ge_ID = 1, ge_Name = ''test-new-group''\<rparr>]\<rparr>"
  let ?t = "\<lparr>Object = Some (FromTag UserTagKind ''alice@external''), Relation = ''writer'',
             Target = FromTag ModelTagKind ''00000002''\<rparr>"
  have r: "RenameGroup ex_groups ex_admin ''test-group'' ''test-new-group'' = Inr ?j'"
    by code_simp
  note p = RenameGroup_preserves_authorization [OF r, of MemberRelation]
  from p have resolve:
    "ResolveTag_group (Groups ?j') ''test-new-group'' MemberRelation
     = ResolveTag_group (Groups ex_groups) ''test-group'' MemberRelation"
    by (elim conjE)
  from p have check: "CheckRelation (OpenFGAClient ?j') ?t = CheckRelation (OpenFGAClient ex_groups) ?t"
    by (elim conjE allE [of _ ?t])
  have old: "ResolveTag_group (Groups ex_groups) ''test-group'' MemberRelation
             = Inr (FromTagWithRelation GroupTagKind ''1'' MemberRelation)"
    by code_simp
  have m: "ex_tuple_member \<in> set (tuple_keys (OpenFGAClient ex_groups))"
    and w: "ex_tuple_model \<in> set (tuple_keys (OpenFGAClient ex_groups))"
    by (simp_all add: ex_groups_def)
  from m have "api_Check (tuple_keys (OpenFGAClient ex_groups))
          (FromTag UserTagKind ''alice@external'') MemberRelation (FromTag GroupTagKind ''1'')"
    unfolding ex_tuple_member_def by (rule api_Check.direct)
  with w have "api_Check (tuple_keys (OpenFGAClient ex_groups))
          (FromTag UserTagKind ''alice@external'') ''writer'' (FromTag ModelTagKind ''00000002'')"
    unfolding ex_tuple_model_def by (rule api_Check.through_group)
  moreover have "available (OpenFGAClient ex_groups)"
    by (simp add: ex_groups_def)
  ultimately have before: "CheckRelation (OpenFGAClient ex_groups) ?t = Inr True"
    by (simp add: CheckRelation_def createTupleKey_def)
  have g: "Groups ?j' = [\<lparr>ge_ID = 1, ge_Name = ''test-new-group''\<rparr>]" by simp
  from r g resolve [unfolded old] check [unfolded before] show ?thesis
    by (intro exI [of _ ?j'] conjI)
qed

end
